theory Spec2Isabelle
  imports Main "HOL-Library.Word"
begin

unbundle bit_operations_syntax

section \<open>Machine types and platform constants\<close>

text \<open>
  The library is built for Linux with glibc (it requires \<^verbatim>\<open>__GLIBC_PREREQ(2,11)\<close>).
  The model fixes the LP64 data model of x86-64: \<^verbatim>\<open>size_t\<close>, \<^verbatim>\<open>uintptr_t\<close>,
  \<^verbatim>\<open>unsigned long\<close>, \<^verbatim>\<open>long\<close> and \<^verbatim>\<open>off_t\<close> are 64 bits wide, \<^verbatim>\<open>int\<close> is 32 bits
  wide. A \<^verbatim>\<open>void *\<close> and a function pointer are the address they hold; \<^verbatim>\<open>NULL\<close> is 0.
  A signed value is the word that holds it, read with \<open>sint\<close>.
\<close>

type_synonym size_t = "64 word"
type_synonym uintptr_t = "64 word"
type_synonym ulong = "64 word"
type_synonym off_t = "64 word"
type_synonym c_int = "32 word"
type_synonym tid = nat

text \<open>Constants of the system headers (\<^verbatim>\<open>sys/mman.h\<close>, \<^verbatim>\<open>errno.h\<close>, \<^verbatim>\<open>limits.h\<close>) on Linux x86-64.\<close>

definition MAP_SHARED :: c_int where "MAP_SHARED = 0x01"
definition MAP_PRIVATE :: c_int where "MAP_PRIVATE = 0x02"
definition MAP_ANONYMOUS :: c_int where "MAP_ANONYMOUS = 0x20"
definition MAP_GROWSDOWN :: c_int where "MAP_GROWSDOWN = 0x00100"
definition MAP_STACK :: c_int where "MAP_STACK = 0x20000"
definition MADV_MERGEABLE :: c_int where "MADV_MERGEABLE = 12"
definition MREMAP_MAYMOVE :: c_int where "MREMAP_MAYMOVE = 1"
definition MREMAP_FIXED :: c_int where "MREMAP_FIXED = 2"
definition EDEADLK :: c_int where "EDEADLK = 35"
definition EPERM :: c_int where "EPERM = 1"
definition INT_MAX :: int where "INT_MAX = 2147483647"
definition LONG_MAX :: int where "LONG_MAX = 9223372036854775807"
definition LONG_MIN :: int where "LONG_MIN = - 9223372036854775808"

definition MERGE_THRESHOLD_ENV_NAME :: string where
  "MERGE_THRESHOLD_ENV_NAME = ''KSMP_MERGE_THRESHOLD''"

section \<open>Global state\<close>

text \<open>
  The anonymous struct behind the variable \<^verbatim>\<open>globals\<close>: the five pointers to the functions
  the program would use without the preload, the page size and the merge threshold.
\<close>

record globals_t =
  ext_calloc :: uintptr_t
  ext_malloc :: uintptr_t
  ext_mmap :: uintptr_t
  ext_mremap :: uintptr_t
  ext_realloc :: uintptr_t
  page_size :: ulong
  merge_threshold :: c_int

text \<open>
  What the library needs from its surroundings. \<open>'w\<close> is the state of everything outside
  the library (the allocator's heap, the kernel's mappings). Calling the code at an
  address as one of the five primitives gives a result and a new outside state; the
  variadic arguments of \<^verbatim>\<open>mremap\<close> are a list. \<open>dlsym_next\<close> is \<^verbatim>\<open>dlsym (RTLD_NEXT, _)\<close>,
  with 0 for a symbol that is not found; \<open>dlerror\<close> is the message \<^verbatim>\<open>dlerror ()\<close> gives
  after the failed lookup of a symbol. \<open>libc_calloc\<close>, \<open>libc_malloc\<close>, \<open>libc_mmap\<close> and
  \<open>libc_realloc\<close> are the addresses of \<^verbatim>\<open>__libc_calloc\<close>, \<^verbatim>\<open>__libc_malloc\<close>, \<^verbatim>\<open>__mmap\<close> and
  \<^verbatim>\<open>__libc_realloc\<close>.
\<close>

record 'w platform =
  dlsym_next :: "string \<Rightarrow> uintptr_t"
  dlerror :: "string \<Rightarrow> string"
  program_invocation_name :: string
  sysconf_PAGESIZE :: "64 word"
  getenv :: "string \<Rightarrow> string option"
  libc_calloc :: uintptr_t
  libc_malloc :: uintptr_t
  libc_mmap :: uintptr_t
  libc_realloc :: uintptr_t
  call_calloc :: "uintptr_t \<Rightarrow> size_t \<Rightarrow> size_t \<Rightarrow> 'w \<Rightarrow> uintptr_t \<times> 'w"
  call_malloc :: "uintptr_t \<Rightarrow> size_t \<Rightarrow> 'w \<Rightarrow> uintptr_t \<times> 'w"
  call_mmap :: "uintptr_t \<Rightarrow> uintptr_t \<Rightarrow> size_t \<Rightarrow> c_int \<Rightarrow> c_int \<Rightarrow> c_int \<Rightarrow> off_t
                  \<Rightarrow> 'w \<Rightarrow> uintptr_t \<times> 'w"
  call_mremap :: "uintptr_t \<Rightarrow> uintptr_t \<Rightarrow> size_t \<Rightarrow> size_t \<Rightarrow> c_int \<Rightarrow> uintptr_t list
                  \<Rightarrow> 'w \<Rightarrow> uintptr_t \<times> 'w"
  call_realloc :: "uintptr_t \<Rightarrow> uintptr_t \<Rightarrow> size_t \<Rightarrow> 'w \<Rightarrow> uintptr_t \<times> 'w"
  sys_madvise :: "uintptr_t \<Rightarrow> size_t \<Rightarrow> c_int \<Rightarrow> 'w \<Rightarrow> c_int \<times> 'w"

text \<open>
  The state of the process as the library sees it: \<^verbatim>\<open>globals\<close>, the two static variables
  of \<^verbatim>\<open>lazily_setup\<close> (the flag \<^verbatim>\<open>setup_done\<close> and the error-checking mutex, given by the
  thread that holds it), the outside state, and the trace of the \<^verbatim>\<open>madvise\<close> calls issued
  so far (address, length, advice).
\<close>

record 'w process =
  globals :: globals_t
  setup_done :: bool
  mutex :: "tid option"
  world :: 'w
  advised :: "(uintptr_t \<times> size_t \<times> c_int) list"

text \<open>
  The ways a call into the library ends without returning: \<^verbatim>\<open>error (1, 0, ...)\<close> exits
  with a status and a message; a call through a null function pointer; the division by
  a page size of 0; a failed \<^verbatim>\<open>assert\<close>; waiting for a mutex another thread holds;
  \<^verbatim>\<open>va_arg\<close> with no argument left to read.
\<close>

datatype failure =
  Exit int string
  | Null_call
  | Division_by_zero
  | Assertion_failed
  | Blocked
  | No_va_arg

text \<open>The initialiser of \<^verbatim>\<open>globals\<close>.\<close>

definition initial_globals :: "'w platform \<Rightarrow> globals_t" where
  "initial_globals p =
     \<lparr>ext_calloc = libc_calloc p,
      ext_malloc = libc_malloc p,
      ext_mmap = libc_mmap p,
      ext_mremap = 0,
      ext_realloc = libc_realloc p,
      page_size = 4096,
      merge_threshold = 4096 * 8\<rparr>"

definition initial_process :: "'w platform \<Rightarrow> 'w \<Rightarrow> 'w process" where
  "initial_process p w =
     \<lparr>globals = initial_globals p, setup_done = False, mutex = None, world = w, advised = []\<rparr>"

section \<open>Setup\<close>

subsection \<open>The C library's strtol, base 10\<close>

text \<open>
  \<^verbatim>\<open>strtol (s, &end, 10)\<close> in the C locale: white space is skipped, one sign is read, then
  the decimal digits. With no digit, the value is 0 and \<^verbatim>\<open>end\<close> is \<^verbatim>\<open>s\<close> itself; otherwise
  \<^verbatim>\<open>end\<close> is the text after the last digit and a value outside \<^verbatim>\<open>long\<close> is clamped to
  \<^verbatim>\<open>LONG_MIN\<close> or \<^verbatim>\<open>LONG_MAX\<close>. A C string ends at its first NUL; \<open>deref\<close> reads the
  character a \<^verbatim>\<open>char *\<close> points to, NUL at the end of the text.
\<close>

definition NUL :: char where
  "NUL = CHR 0x00"

definition deref :: "string \<Rightarrow> char" where
  "deref s = (case s of [] \<Rightarrow> NUL | c # _ \<Rightarrow> c)"

definition isspace :: "char \<Rightarrow> bool" where
  "isspace c \<longleftrightarrow> c \<in> {CHR '' '', CHR 0x09, CHR 0x0A, CHR 0x0B, CHR 0x0C, CHR 0x0D}"

definition isdigit :: "char \<Rightarrow> bool" where
  "isdigit c \<longleftrightarrow> 48 \<le> (of_char c :: nat) \<and> (of_char c :: nat) \<le> 57"

definition digit_value :: "char \<Rightarrow> int" where
  "digit_value c = int (of_char c) - 48"

definition strtol :: "string \<Rightarrow> int \<times> string" where
  "strtol nptr =
     (let s = dropWhile isspace nptr;
          negative = (deref s = CHR ''-'');
          s1 = (if deref s = CHR ''-'' \<or> deref s = CHR ''+'' then tl s else s);
          digits = takeWhile isdigit s1;
          endptr = dropWhile isdigit s1;
          magnitude = foldl (\<lambda>acc c. 10 * acc + digit_value c) 0 digits;
          v = (if negative then - magnitude else magnitude)
      in if digits = [] then (0, nptr)
         else (max LONG_MIN (min LONG_MAX v), endptr))"

subsection \<open>get_int_from_environment\<close>

definition get_int_from_environment :: "'w platform \<Rightarrow> string \<Rightarrow> c_int" where
  "get_int_from_environment p var_name =
     (case getenv p var_name of
        None \<Rightarrow> - 1
      | Some var_string \<Rightarrow>
          (let (var_value, var_string_end) = strtol var_string
           in if deref var_string_end \<noteq> NUL \<or> var_value < 0 then - 1
              else if var_value > INT_MAX then word_of_int INT_MAX
              else word_of_int var_value))"

subsection \<open>xdlsym\<close>

text \<open>
  \<^verbatim>\<open>error (1, 0, fmt, ...)\<close> writes the program name, a colon and a space, the formatted
  message and a newline to the standard error stream, then exits with status 1.
\<close>

definition error_exit :: "'w platform \<Rightarrow> int \<Rightarrow> string \<Rightarrow> failure" where
  "error_exit p status message =
     Exit status (program_invocation_name p @ '': '' @ message @ [CHR 0x0A])"

definition xdlsym :: "'w platform \<Rightarrow> string \<Rightarrow> failure + uintptr_t" where
  "xdlsym p symbol =
     (let res = dlsym_next p symbol
      in if res \<noteq> 0 then Inr res
         else Inl (error_exit p 1 (''failed to load '' @ symbol @ '' : '' @ dlerror p symbol)))"

subsection \<open>setup\<close>

text \<open>
  The function \<^verbatim>\<open>setup\<close> of the source (\<open>setup\<close> is a keyword of Isabelle). It returns how
  it ended together with \<^verbatim>\<open>globals\<close> as they are at that moment: at an exit, the value
  the process dies with.
\<close>

definition setup_globals :: "'w platform \<Rightarrow> globals_t \<Rightarrow> (failure + unit) \<times> globals_t" where
  "setup_globals p g =
     (case xdlsym p ''calloc'' of Inl e \<Rightarrow> (Inl e, g) | Inr dl_calloc \<Rightarrow>
      case xdlsym p ''malloc'' of Inl e \<Rightarrow> (Inl e, g) | Inr dl_malloc \<Rightarrow>
      case xdlsym p ''mmap'' of Inl e \<Rightarrow> (Inl e, g) | Inr dl_mmap \<Rightarrow>
      case xdlsym p ''mremap'' of Inl e \<Rightarrow> (Inl e, g) | Inr dl_mremap \<Rightarrow>
      case xdlsym p ''realloc'' of Inl e \<Rightarrow> (Inl e, g) | Inr dl_realloc \<Rightarrow>
        (let g1 = g\<lparr>page_size := sysconf_PAGESIZE p\<rparr>;
             env_merge_treshold = get_int_from_environment p MERGE_THRESHOLD_ENV_NAME;
             g2 = (if 0 \<le> sint env_merge_treshold
                   then g1\<lparr>merge_threshold := env_merge_treshold\<rparr> else g1)
         in (Inr (),
             g2\<lparr>ext_calloc := dl_calloc,
                ext_malloc := dl_malloc,
                ext_mmap := dl_mmap,
                ext_mremap := dl_mremap,
                ext_realloc := dl_realloc\<rparr>)))"

section \<open>Utilities for the wrappers\<close>

subsection \<open>The error-checking mutex\<close>

text \<open>
  \<^verbatim>\<open>pthread_mutex_lock\<close> on a mutex of kind \<^verbatim>\<open>PTHREAD_MUTEX_ERRORCHECK\<close>: a free mutex is
  taken and 0 returned; the thread that holds it gets \<^verbatim>\<open>EDEADLK\<close>, with the mutex as it
  was; another thread waits (\<open>None\<close>). \<^verbatim>\<open>pthread_mutex_unlock\<close> frees the mutex for the
  thread that holds it and is refused with \<^verbatim>\<open>EPERM\<close> for any other.
\<close>

definition pthread_mutex_lock :: "tid \<Rightarrow> tid option \<Rightarrow> (c_int \<times> tid option) option" where
  "pthread_mutex_lock self m =
     (case m of
        None \<Rightarrow> Some (0, Some self)
      | Some owner \<Rightarrow> if owner = self then Some (EDEADLK, m) else None)"

definition pthread_mutex_unlock :: "tid \<Rightarrow> tid option \<Rightarrow> c_int \<times> tid option" where
  "pthread_mutex_unlock self m = (if m = Some self then (0, None) else (EPERM, m))"

subsection \<open>lazily_setup\<close>

definition lazily_setup :: "'w platform \<Rightarrow> tid \<Rightarrow> 'w process \<Rightarrow> failure + 'w process" where
  "lazily_setup p self s =
     (if setup_done s then Inr s
      else
        (case pthread_mutex_lock self (mutex s) of
           None \<Rightarrow> Inl Blocked
         | Some (rc, m) \<Rightarrow>
             if rc = EDEADLK then Inr s
             else
               (let s1 = s\<lparr>mutex := m\<rparr> in
                case (if \<not> setup_done s1
                      then (case setup_globals p (globals s1) of
                              (Inl e, g) \<Rightarrow> Inl e
                            | (Inr u, g) \<Rightarrow> Inr (s1\<lparr>globals := g, setup_done := True\<rparr>))
                      else Inr s1) of
                  Inl e \<Rightarrow> Inl e
                | Inr s2 \<Rightarrow> Inr (s2\<lparr>mutex := snd (pthread_mutex_unlock self (mutex s2))\<rparr>))))"

subsection \<open>merge_if_profitable\<close>

text \<open>
  \<^verbatim>\<open>madvise\<close> as the process sees it: the kernel's answer, the outside state it leaves and
  the call added to the trace.
\<close>

definition madvise :: "'w platform \<Rightarrow> uintptr_t \<Rightarrow> size_t \<Rightarrow> c_int \<Rightarrow> 'w process
    \<Rightarrow> c_int \<times> 'w process" where
  "madvise p addr len advice s =
     (let (rc, w) = sys_madvise p addr len advice (world s)
      in (rc, s\<lparr>world := w, advised := advised s @ [(addr, len, advice)]\<rparr>))"

text \<open>The locals \<^verbatim>\<open>page_address\<close> and \<^verbatim>\<open>new_length\<close> of \<^verbatim>\<open>merge_if_profitable\<close>.\<close>

definition page_address :: "globals_t \<Rightarrow> uintptr_t \<Rightarrow> uintptr_t" where
  "page_address g raw_address = (raw_address div page_size g) * page_size g"

definition new_length :: "globals_t \<Rightarrow> uintptr_t \<Rightarrow> size_t \<Rightarrow> size_t" where
  "new_length g raw_address len = len + (raw_address - page_address g raw_address)"

text \<open>
  The comparison \<^verbatim>\<open>new_length <= globals.merge_threshold\<close> converts the \<^verbatim>\<open>int\<close> to
  \<^verbatim>\<open>size_t\<close> (sign extension) and compares unsigned. The build has \<^verbatim>\<open>DEBUG\<close> undefined:
  \<^verbatim>\<open>debug_printf\<close> and \<^verbatim>\<open>debug_puts\<close> expand to nothing, so the answer of \<^verbatim>\<open>madvise\<close> is
  dropped.
\<close>

definition merge_if_profitable :: "'w platform \<Rightarrow> uintptr_t \<Rightarrow> size_t \<Rightarrow> c_int \<Rightarrow> 'w process
    \<Rightarrow> failure + 'w process" where
  "merge_if_profitable p address len flags s =
     (let g = globals s in
      if page_size g = 0 then Inl Division_by_zero
      else if \<not> page_address g address \<le> address then Inl Assertion_failed
      else if new_length g address len \<le> scast (merge_threshold g) \<or> address = 0 then Inr s
      else if flags = - 1
              \<or> (flags AND MAP_PRIVATE \<noteq> 0 \<and> flags AND MAP_ANONYMOUS \<noteq> 0
                  \<and> \<not> flags AND MAP_GROWSDOWN \<noteq> 0 \<and> \<not> flags AND MAP_STACK \<noteq> 0)
      then Inr (snd (madvise p (page_address g address) (new_length g address len)
                       MADV_MERGEABLE s))
      else Inr s)"

section \<open>Wrappers\<close>

definition calloc :: "'w platform \<Rightarrow> tid \<Rightarrow> size_t \<Rightarrow> size_t \<Rightarrow> 'w process
    \<Rightarrow> failure + uintptr_t \<times> 'w process" where
  "calloc p self nmemb sz s =
     (case lazily_setup p self s of Inl e \<Rightarrow> Inl e | Inr s1 \<Rightarrow>
      if ext_calloc (globals s1) = 0 then Inl Null_call
      else
        (let (res, w) = call_calloc p (ext_calloc (globals s1)) nmemb sz (world s1)
         in case merge_if_profitable p res sz (- 1) (s1\<lparr>world := w\<rparr>) of
              Inl e \<Rightarrow> Inl e
            | Inr s2 \<Rightarrow> Inr (res, s2)))"

definition malloc :: "'w platform \<Rightarrow> tid \<Rightarrow> size_t \<Rightarrow> 'w process
    \<Rightarrow> failure + uintptr_t \<times> 'w process" where
  "malloc p self sz s =
     (case lazily_setup p self s of Inl e \<Rightarrow> Inl e | Inr s1 \<Rightarrow>
      if ext_malloc (globals s1) = 0 then Inl Null_call
      else
        (let (res, w) = call_malloc p (ext_malloc (globals s1)) sz (world s1)
         in case merge_if_profitable p res sz (- 1) (s1\<lparr>world := w\<rparr>) of
              Inl e \<Rightarrow> Inl e
            | Inr s2 \<Rightarrow> Inr (res, s2)))"

definition mmap :: "'w platform \<Rightarrow> tid \<Rightarrow> uintptr_t \<Rightarrow> size_t \<Rightarrow> c_int \<Rightarrow> c_int \<Rightarrow> c_int \<Rightarrow> off_t
    \<Rightarrow> 'w process \<Rightarrow> failure + uintptr_t \<times> 'w process" where
  "mmap p self addr len prot flags fd offset s =
     (case lazily_setup p self s of Inl e \<Rightarrow> Inl e | Inr s1 \<Rightarrow>
      if ext_mmap (globals s1) = 0 then Inl Null_call
      else
        (let (res, w) = call_mmap p (ext_mmap (globals s1)) addr len prot flags fd offset
                          (world s1)
         in case merge_if_profitable p res len flags (s1\<lparr>world := w\<rparr>) of
              Inl e \<Rightarrow> Inl e
            | Inr s2 \<Rightarrow> Inr (res, s2)))"

text \<open>
  \<open>extra_args\<close> are the arguments the caller passed after \<^verbatim>\<open>flags\<close>; \<^verbatim>\<open>va_arg\<close> reads the
  first of them.
\<close>

definition mremap :: "'w platform \<Rightarrow> tid \<Rightarrow> uintptr_t \<Rightarrow> size_t \<Rightarrow> size_t \<Rightarrow> c_int
    \<Rightarrow> uintptr_t list \<Rightarrow> 'w process \<Rightarrow> failure + uintptr_t \<times> 'w process" where
  "mremap p self old_address old_length new_len flags extra_args s =
     (case lazily_setup p self s of Inl e \<Rightarrow> Inl e | Inr s1 \<Rightarrow>
      case (if flags AND MREMAP_FIXED \<noteq> 0
            then (case extra_args of
                    [] \<Rightarrow> Inl No_va_arg
                  | target_address # _ \<Rightarrow>
                      if ext_mremap (globals s1) = 0 then Inl Null_call
                      else Inr (call_mremap p (ext_mremap (globals s1)) old_address old_length
                                  new_len flags [target_address] (world s1)))
            else if ext_mremap (globals s1) = 0 then Inl Null_call
            else Inr (call_mremap p (ext_mremap (globals s1)) old_address old_length
                        new_len flags [] (world s1))) of
        Inl e \<Rightarrow> Inl e
      | Inr (res, w) \<Rightarrow>
          (case merge_if_profitable p res new_len (- 1) (s1\<lparr>world := w\<rparr>) of
             Inl e \<Rightarrow> Inl e
           | Inr s2 \<Rightarrow> Inr (res, s2)))"

definition realloc :: "'w platform \<Rightarrow> tid \<Rightarrow> uintptr_t \<Rightarrow> size_t \<Rightarrow> 'w process
    \<Rightarrow> failure + uintptr_t \<times> 'w process" where
  "realloc p self addr sz s =
     (case lazily_setup p self s of Inl e \<Rightarrow> Inl e | Inr s1 \<Rightarrow>
      if ext_realloc (globals s1) = 0 then Inl Null_call
      else
        (let (res, w) = call_realloc p (ext_realloc (globals s1)) addr sz (world s1)
         in case merge_if_profitable p res sz (- 1) (s1\<lparr>world := w\<rparr>) of
              Inl e \<Rightarrow> Inl e
            | Inr s2 \<Rightarrow> Inr (res, s2)))"

section \<open>Concrete inputs\<close>

text \<open>The five symbols \<^verbatim>\<open>setup\<close> resolves, in the order of its \<^verbatim>\<open>xdlsym\<close> calls.\<close>

definition hooked_symbols :: "string list" where
  "hooked_symbols = [''calloc'', ''malloc'', ''mmap'', ''mremap'', ''realloc'']"

text \<open>
  A platform to run the model on: the next library defines the five symbols, the page
  size is 4096, the environment holds at most the threshold variable, and the outside
  state counts the calls made to the real primitives. Its allocators fail (return null)
  for requests above \<open>2 ^ 40\<close> bytes; its \<^verbatim>\<open>mremap\<close> returns the target address it is
  given, or the old address when it is given none.
\<close>

definition sample_platform :: "string option \<Rightarrow> nat platform" where
  "sample_platform threshold_env =
     \<lparr>dlsym_next = (\<lambda>symbol.
        if symbol = ''calloc'' then 0x7F0000001000
        else if symbol = ''malloc'' then 0x7F0000002000
        else if symbol = ''mmap'' then 0x7F0000003000
        else if symbol = ''mremap'' then 0x7F0000004000
        else if symbol = ''realloc'' then 0x7F0000005000
        else 0),
      dlerror = (\<lambda>symbol. ''undefined symbol: '' @ symbol),
      program_invocation_name = ''a.out'',
      sysconf_PAGESIZE = 4096,
      getenv = (\<lambda>name. if name = ''KSMP_MERGE_THRESHOLD'' then threshold_env else None),
      libc_calloc = 0x7F0000001100,
      libc_malloc = 0x7F0000002100,
      libc_mmap = 0x7F0000003100,
      libc_realloc = 0x7F0000005100,
      call_calloc = (\<lambda>f nmemb sz w.
        (if 0x10000000000 < sz then 0 else 0x10000 * (of_nat w + 1) + 0x64, Suc w)),
      call_malloc = (\<lambda>f sz w.
        (if 0x10000000000 < sz then 0 else 0x10000 * (of_nat w + 1) + 0x64, Suc w)),
      call_mmap = (\<lambda>f addr len prot flags fd offset w. (0x10000 * (of_nat w + 1), Suc w)),
      call_mremap = (\<lambda>f old_address old_length new_len flags extra w.
        (case extra of [] \<Rightarrow> old_address | target # _ \<Rightarrow> target, Suc w)),
      call_realloc = (\<lambda>f addr sz w. (if 0x10000000000 < sz then 0 else addr, Suc w)),
      sys_madvise = (\<lambda>addr len advice w. (0, w))\<rparr>"

text \<open>The same platform with one symbol the next library does not define.\<close>

definition platform_without :: "string \<Rightarrow> nat platform" where
  "platform_without missing =
     (sample_platform None)
       \<lparr>dlsym_next := (\<lambda>symbol.
          if symbol = missing then 0 else dlsym_next (sample_platform None) symbol)\<rparr>"

text \<open>
  The process on the sample platform once setup is done, with a given merge threshold,
  and the process in the middle of setup: thread 1 holds the mutex, \<^verbatim>\<open>globals\<close> still hold
  their initial values.
\<close>

definition ready_process :: "c_int \<Rightarrow> nat process" where
  "ready_process threshold =
     \<lparr>globals =
        \<lparr>ext_calloc = 0x7F0000001000,
         ext_malloc = 0x7F0000002000,
         ext_mmap = 0x7F0000003000,
         ext_mremap = 0x7F0000004000,
         ext_realloc = 0x7F0000005000,
         page_size = 4096,
         merge_threshold = threshold\<rparr>,
      setup_done = True, mutex = None, world = 0, advised = []\<rparr>"

definition process_in_setup :: "nat platform \<Rightarrow> nat process" where
  "process_in_setup p = (initial_process p 0)\<lparr>mutex := Some 1\<rparr>"

section \<open>Facts about the page arithmetic\<close>

lemma page_address_le: "page_address g a \<le> a"
  by (simp add: page_address_def word_div_mult_le)

lemma offset_eq_mod: "a - page_address g a = a mod page_size g"
  unfolding page_address_def by (metis add_diff_cancel_left' div_mult_mod_eq)

lemma new_length_mod: "new_length g a len = len + a mod page_size g"
  by (simp add: new_length_def offset_eq_mod)

lemma unat_page_address:
  "unat (page_address g a) = unat a div unat (page_size g) * unat (page_size g)"
proof -
  have "unat a div unat (page_size g) * unat (page_size g) \<le> unat a" by simp
  also have "\<dots> < 2 ^ LENGTH(64)" by (rule unsigned_less)
  finally have "unat (a div page_size g) * unat (page_size g) < 2 ^ LENGTH(64)"
    by (simp add: unat_div)
  then have "unat (a div page_size g * page_size g)
      = unat (a div page_size g) * unat (page_size g)"
    using unat_mult_lem [of "a div page_size g" "page_size g"] by simp
  then show ?thesis by (simp add: page_address_def unat_div)
qed

lemma unat_new_length:
  assumes "unat len + unat a mod unat (page_size g) < 2 ^ 64"
  shows "unat (new_length g a len) = unat len + unat a mod unat (page_size g)"
proof -
  have "unat len + unat (a mod page_size g) < 2 ^ LENGTH(64)"
    using assms by (simp add: unat_mod)
  then have "unat (len + a mod page_size g) = unat len + unat (a mod page_size g)"
    using unat_add_lem [of len "a mod page_size g"] by simp
  then show ?thesis by (simp add: new_length_mod unat_mod)
qed

lemma unat_scast_threshold:
  fixes t :: c_int
  assumes "0 \<le> sint t"
  shows "unat (scast t :: size_t) = nat (sint t)"
proof -
  have "sint t < 2 ^ (LENGTH(32) - 1)" by (rule sint_lt)
  then have "sint t < 2 ^ 64" by simp
  with assms have m: "sint t mod 2 ^ 64 = sint t" by simp
  have "uint (scast t :: size_t) = sint t mod 2 ^ LENGTH(64)"
    by (simp only: scast_eq uint_word_of_int)
  with m have "uint (scast t :: size_t) = sint t" by simp
  then show ?thesis by (simp only: unat_eq_nat_uint)
qed

text \<open>For a threshold that is not negative, the unsigned comparison of the source is the
  comparison of the two numbers.\<close>

lemma threshold_test:
  fixes t :: c_int and n :: size_t
  assumes "0 \<le> sint t"
  shows "n \<le> scast t \<longleftrightarrow> uint n \<le> sint t"
proof -
  have "n \<le> scast t \<longleftrightarrow> unat n \<le> unat (scast t :: size_t)"
    by (rule word_le_nat_alt)
  also have "\<dots> \<longleftrightarrow> unat n \<le> nat (sint t)"
    by (simp only: unat_scast_threshold [OF assms])
  also have "\<dots> \<longleftrightarrow> uint n \<le> sint t"
    using assms by (simp only: unat_eq_nat_uint) linarith
  finally show ?thesis .
qed

section \<open>Facts about merge_if_profitable\<close>

lemma advised_madvise: "advised (snd (madvise p a l adv s)) = advised s @ [(a, l, adv)]"
  by (simp add: madvise_def split: prod.splits)

lemma madvise_keeps:
  "globals (snd (madvise p a l adv s)) = globals s
   \<and> setup_done (snd (madvise p a l adv s)) = setup_done s
   \<and> mutex (snd (madvise p a l adv s)) = mutex s"
  by (simp add: madvise_def split: prod.splits)

lemma madvise_changes: "snd (madvise p a l adv s) \<noteq> s"
proof
  assume "snd (madvise p a l adv s) = s"
  then have "advised (snd (madvise p a l adv s)) = advised s" by simp
  then show False by (simp add: advised_madvise)
qed

lemma merge_if_profitable_null:
  "page_size (globals s) \<noteq> 0 \<Longrightarrow> merge_if_profitable p 0 len flags s = Inr s"
  by (simp add: merge_if_profitable_def Let_def page_address_def)

lemma merge_if_profitable_small:
  "page_size (globals s) \<noteq> 0 \<Longrightarrow>
   new_length (globals s) a len \<le> scast (merge_threshold (globals s)) \<Longrightarrow>
   merge_if_profitable p a len flags s = Inr s"
  by (simp add: merge_if_profitable_def Let_def page_address_le)

lemma merge_if_profitable_big:
  "page_size (globals s) \<noteq> 0 \<Longrightarrow> a \<noteq> 0 \<Longrightarrow>
   \<not> new_length (globals s) a len \<le> scast (merge_threshold (globals s)) \<Longrightarrow>
   merge_if_profitable p a len flags s =
     (if flags = - 1
         \<or> (flags AND MAP_PRIVATE \<noteq> 0 \<and> flags AND MAP_ANONYMOUS \<noteq> 0
             \<and> flags AND MAP_GROWSDOWN = 0 \<and> flags AND MAP_STACK = 0)
      then Inr (snd (madvise p (page_address (globals s) a) (new_length (globals s) a len)
                  MADV_MERGEABLE s))
      else Inr s)"
  by (simp add: merge_if_profitable_def Let_def page_address_le)

text \<open>With a page size that is not 0, merge_if_profitable returns: the assertion never
  fails. It returns the state it was given or that state after one call of madvise on the
  page-rounded region.\<close>

lemma merge_if_profitable_returns:
  assumes "page_size (globals s) \<noteq> 0"
  shows "merge_if_profitable p a len flags s = Inr s
         \<or> merge_if_profitable p a len flags s =
             Inr (snd (madvise p (page_address (globals s) a) (new_length (globals s) a len)
                    MADV_MERGEABLE s))"
  using assms by (simp add: merge_if_profitable_def Let_def page_address_le)

lemma merge_if_profitable_keeps:
  assumes "merge_if_profitable p a len flags s = Inr s'"
  shows "globals s' = globals s \<and> setup_done s' = setup_done s \<and> mutex s' = mutex s"
proof (cases "page_size (globals s) = 0")
  case True
  with assms show ?thesis by (simp add: merge_if_profitable_def Let_def)
next
  case False
  from merge_if_profitable_returns [OF False, of p a len flags] assms
  show ?thesis by (auto simp: madvise_keeps)
qed

section \<open>The merge policy\<close>

text \<open>
  C8 (null address): with a null address, as a failed allocation returns it,
  merge_if_profitable issues no advisory and changes nothing, whatever the length and the
  flags: it returns the state it was given. The page size is not 0 (the rounding divides
  by it before the address is tested).
\<close>

theorem null_address_no_advisory:
  assumes "page_size (globals s) \<noteq> 0"
  shows "merge_if_profitable p 0 len flags s = Inr s"
  using assms by (rule merge_if_profitable_null)

theorem null_address_no_advisory_witness:
  "page_size (globals (ready_process 0)) \<noteq> 0
   \<and> merge_if_profitable (sample_platform None) 0 100000 (- 1) (ready_process 0)
       = Inr (ready_process 0)"
proof -
  have h: "page_size (globals (ready_process 0)) \<noteq> 0"
    by (simp add: ready_process_def)
  show ?thesis
    using h null_address_no_advisory [OF h, of "sample_platform None" 100000 "- 1"] by simp
qed

text \<open>
  C2 (threshold boundary), as the code has it. The claim as stated, for every address
  that is not null, fails where the page-extended length, the length plus the offset of
  the address within its page, does not fit in \<^verbatim>\<open>size_t\<close>: the sum wraps around before
  it is compared. With the default threshold 32768, the address 0x10064 (100 bytes into
  its page), the length \<open>2 ^ 64 - 50\<close> and flags -1, the length plus the offset is far
  above the threshold, yet the code compares 50 with it and issues nothing.
\<close>

theorem threshold_boundary_wraps:
  "page_size (globals (ready_process 32768)) \<noteq> 0
   \<and> (0x10064 :: uintptr_t) \<noteq> 0
   \<and> sint (merge_threshold (globals (ready_process 32768))) = 32768
   \<and> unat (- 50 :: size_t)
       + unat (0x10064 :: uintptr_t) mod unat (page_size (globals (ready_process 32768)))
       = 18446744073709551666
   \<and> unat (new_length (globals (ready_process 32768)) 0x10064 (- 50)) = 50
   \<and> merge_if_profitable (sample_platform None) 0x10064 (- 50) (- 1) (ready_process 32768)
       = Inr (ready_process 32768)"
proof -
  let ?s = "ready_process 32768"
  have ps: "page_size (globals ?s) = 4096" by (simp add: ready_process_def)
  have t: "merge_threshold (globals ?s) = 32768" by (simp add: ready_process_def)
  have pa: "page_address (globals ?s) 0x10064 = 0x10000"
    by (simp add: page_address_def ps)
  have nl: "new_length (globals ?s) 0x10064 (- 50) = 50"
    by (simp add: new_length_def pa)
  have m: "merge_if_profitable (sample_platform None) 0x10064 (- 50) (- 1) ?s = Inr ?s"
    by (rule merge_if_profitable_small) (simp_all add: ps t nl)
  show ?thesis using m by (simp add: ps t nl)
qed

text \<open>
  C2, amended: for an address that is not null, a threshold T that is not negative (every
  threshold setup installs), flags that pass the filter, a page size that is not 0 and a
  length for which L, the length plus the offset of the address within its page, fits in
  \<^verbatim>\<open>size_t\<close>: new_length is L, the advisory madvise (page_address, new_length,
  MADV_MERGEABLE) is issued exactly when L is greater than T, and nothing happens exactly
  when L is at most T. In particular L = T issues nothing and L = T + 1 issues the
  advisory.
\<close>

theorem threshold_boundary:
  assumes "page_size (globals s) \<noteq> 0"
    and "address \<noteq> 0"
    and "0 \<le> sint (merge_threshold (globals s))"
    and "flags = - 1
         \<or> (flags AND MAP_PRIVATE \<noteq> 0 \<and> flags AND MAP_ANONYMOUS \<noteq> 0
             \<and> flags AND MAP_GROWSDOWN = 0 \<and> flags AND MAP_STACK = 0)"
    and "unat len + unat address mod unat (page_size (globals s)) < 2 ^ 64"
  shows "unat (new_length (globals s) address len)
           = unat len + unat address mod unat (page_size (globals s))
       \<and> unat (page_address (globals s) address)
           = unat address div unat (page_size (globals s)) * unat (page_size (globals s))
       \<and> ((merge_if_profitable p address len flags s
            = Inr (snd (madvise p (page_address (globals s) address)
                     (new_length (globals s) address len) MADV_MERGEABLE s)))
          = (sint (merge_threshold (globals s))
               < int (unat len + unat address mod unat (page_size (globals s)))))
       \<and> ((merge_if_profitable p address len flags s = Inr s)
          = (int (unat len + unat address mod unat (page_size (globals s)))
               \<le> sint (merge_threshold (globals s))))
       \<and> (int (unat len + unat address mod unat (page_size (globals s)))
            = sint (merge_threshold (globals s))
          \<longrightarrow> merge_if_profitable p address len flags s = Inr s)
       \<and> (int (unat len + unat address mod unat (page_size (globals s)))
            = sint (merge_threshold (globals s)) + 1
          \<longrightarrow> merge_if_profitable p address len flags s
                = Inr (snd (madvise p (page_address (globals s) address)
                         (new_length (globals s) address len) MADV_MERGEABLE s)))
       \<and> advised (snd (madvise p (page_address (globals s) address)
                    (new_length (globals s) address len) MADV_MERGEABLE s))
          = advised s @ [(page_address (globals s) address,
                          new_length (globals s) address len, MADV_MERGEABLE)]"
proof -
  let ?L = "new_length (globals s) address len"
  let ?n = "unat len + unat address mod unat (page_size (globals s))"
  let ?s' = "snd (madvise p (page_address (globals s) address) ?L MADV_MERGEABLE s)"
  have ext: "unat ?L = ?n" using assms(5) by (rule unat_new_length)
  then have u: "uint ?L = int ?n" by (simp only: uint_nat)
  have pa: "unat (page_address (globals s) address)
           = unat address div unat (page_size (globals s)) * unat (page_size (globals s))"
    by (rule unat_page_address)
  have ne: "?s' \<noteq> s" by (rule madvise_changes)
  have tr: "advised ?s' = advised s @ [(page_address (globals s) address, ?L, MADV_MERGEABLE)]"
    by (rule advised_madvise)
  show ?thesis
  proof (cases "?L \<le> scast (merge_threshold (globals s))")
    case True
    then have le: "int ?n \<le> sint (merge_threshold (globals s))"
      using threshold_test [OF assms(3), of ?L] u by simp
    have r: "merge_if_profitable p address len flags s = Inr s"
      using assms(1) True by (rule merge_if_profitable_small)
    have "Inr s \<noteq> (Inr ?s' :: failure + 'a process)" using ne by simp
    with le r tr ext pa show ?thesis by simp
  next
    case False
    then have gt: "sint (merge_threshold (globals s)) < int ?n"
      using threshold_test [OF assms(3), of ?L] u by simp
    have r: "merge_if_profitable p address len flags s = Inr ?s'"
      using merge_if_profitable_big [OF assms(1) assms(2) False] assms(4) by simp
    have "Inr ?s' \<noteq> (Inr s :: failure + 'a process)" using ne by simp
    with gt r tr ext pa show ?thesis by simp
  qed
qed

text \<open>
  At the default threshold 32768 and the address 0x10064, 100 bytes into its page, the
  boundary lies at the length 32668: with it the extended length is 32768 and nothing is
  issued; one byte more and madvise is issued for 32769 bytes from the page boundary
  0x10000.
\<close>

theorem threshold_boundary_witness:
  "page_size (globals (ready_process 32768)) \<noteq> 0
   \<and> (0x10064 :: uintptr_t) \<noteq> 0
   \<and> 0 \<le> sint (merge_threshold (globals (ready_process 32768)))
   \<and> unat (32669 :: size_t)
        + unat (0x10064 :: uintptr_t) mod unat (page_size (globals (ready_process 32768)))
       < 2 ^ 64
   \<and> sint (merge_threshold (globals (ready_process 32768))) = 32768
   \<and> unat (32668 :: size_t)
        + unat (0x10064 :: uintptr_t) mod unat (page_size (globals (ready_process 32768)))
       = 32768
   \<and> merge_if_profitable (sample_platform None) 0x10064 32668 (- 1) (ready_process 32768)
       = Inr (ready_process 32768)
   \<and> unat (32669 :: size_t)
        + unat (0x10064 :: uintptr_t) mod unat (page_size (globals (ready_process 32768)))
       = 32769
   \<and> unat (new_length (globals (ready_process 32768)) 0x10064 32669) = 32769
   \<and> unat (page_address (globals (ready_process 32768)) 0x10064) = 0x10000
   \<and> merge_if_profitable (sample_platform None) 0x10064 32669 (- 1) (ready_process 32768)
       = Inr (snd (madvise (sample_platform None)
                     (page_address (globals (ready_process 32768)) 0x10064)
                     (new_length (globals (ready_process 32768)) 0x10064 32669)
                     MADV_MERGEABLE (ready_process 32768)))
   \<and> advised (snd (madvise (sample_platform None)
                     (page_address (globals (ready_process 32768)) 0x10064)
                     (new_length (globals (ready_process 32768)) 0x10064 32669)
                     MADV_MERGEABLE (ready_process 32768)))
       = [(0x10000, 32769, MADV_MERGEABLE)]"
proof -
  let ?s = "ready_process 32768"
  have ps: "page_size (globals ?s) = 4096" by (simp add: ready_process_def)
  have h1: "page_size (globals ?s) \<noteq> 0" by (simp add: ps)
  have h2: "(0x10064 :: uintptr_t) \<noteq> 0" by simp
  have t: "sint (merge_threshold (globals ?s)) = 32768" by (simp add: ready_process_def)
  have h3: "0 \<le> sint (merge_threshold (globals ?s))" by (simp add: t)
  have h4: "(- 1 :: c_int) = - 1
         \<or> ((- 1 :: c_int) AND MAP_PRIVATE \<noteq> 0 \<and> (- 1 :: c_int) AND MAP_ANONYMOUS \<noteq> 0
             \<and> (- 1 :: c_int) AND MAP_GROWSDOWN = 0 \<and> (- 1 :: c_int) AND MAP_STACK = 0)"
    by simp
  have n0: "unat (32668 :: size_t) + unat (0x10064 :: uintptr_t) mod unat (page_size (globals ?s))
      = 32768"
    by (simp add: ps)
  have n1: "unat (32669 :: size_t) + unat (0x10064 :: uintptr_t) mod unat (page_size (globals ?s))
      = 32769"
    by (simp add: ps)
  have h5: "unat (32668 :: size_t)
      + unat (0x10064 :: uintptr_t) mod unat (page_size (globals ?s)) < 2 ^ 64"
    by (simp only: n0; simp)
  have h6: "unat (32669 :: size_t)
      + unat (0x10064 :: uintptr_t) mod unat (page_size (globals ?s)) < 2 ^ 64"
    by (simp only: n1; simp)
  have d: "unat (0x10064 :: uintptr_t) div unat (page_size (globals ?s))
      * unat (page_size (globals ?s)) = 0x10000"
    by (simp add: ps)
  have pa: "page_address (globals ?s) 0x10064 = 0x10000"
    by (simp add: page_address_def ps)
  have nl: "new_length (globals ?s) 0x10064 32669 = 32769"
    by (simp add: new_length_def pa)
  have a: "advised ?s = []" by (simp add: ready_process_def)
  note w0 = threshold_boundary [OF h1 h2 h3 h4 h5, of "sample_platform None"]
  note w1 = threshold_boundary [OF h1 h2 h3 h4 h6, of "sample_platform None"]
  have r0: "merge_if_profitable (sample_platform None) 0x10064 32668 (- 1) ?s = Inr ?s"
    using w0 by (simp only: n0 t; simp)
  have r1: "merge_if_profitable (sample_platform None) 0x10064 32669 (- 1) ?s
       = Inr (snd (madvise (sample_platform None) (page_address (globals ?s) 0x10064)
                     (new_length (globals ?s) 0x10064 32669) MADV_MERGEABLE ?s))"
    using w1 by (simp only: n1 t; simp)
  have e1: "unat (new_length (globals ?s) 0x10064 32669) = 32769"
    using w1 by (simp only: n1; simp)
  have e2: "unat (page_address (globals ?s) 0x10064) = 0x10000"
    using w1 by (simp only: d; simp)
  have tr: "advised (snd (madvise (sample_platform None) (page_address (globals ?s) 0x10064)
                     (new_length (globals ?s) 0x10064 32669) MADV_MERGEABLE ?s))
       = [(0x10000, 32769, MADV_MERGEABLE)]"
    using w1 by (simp add: a pa nl)
  show ?thesis
    using h1 h2 h3 h6 t n0 n1 r0 r1 e1 e2 tr by (simp only: simp_thms)
qed

text \<open>
  C3 (flags filter): for a region above the threshold (address not null, threshold not
  negative), the advisory is issued exactly when the flags are -1, or hold MAP_PRIVATE and
  MAP_ANONYMOUS and neither MAP_GROWSDOWN nor MAP_STACK; for every other flags value
  merge_if_profitable returns the state it was given.
\<close>

theorem flags_filter:
  assumes "page_size (globals s) \<noteq> 0"
    and "address \<noteq> 0"
    and "0 \<le> sint (merge_threshold (globals s))"
    and "sint (merge_threshold (globals s)) < uint (new_length (globals s) address len)"
  shows "((merge_if_profitable p address len flags s
            = Inr (snd (madvise p (page_address (globals s) address)
                     (new_length (globals s) address len) MADV_MERGEABLE s)))
          = (flags = - 1
             \<or> (flags AND MAP_PRIVATE \<noteq> 0 \<and> flags AND MAP_ANONYMOUS \<noteq> 0
                 \<and> flags AND MAP_GROWSDOWN = 0 \<and> flags AND MAP_STACK = 0)))
       \<and> ((merge_if_profitable p address len flags s = Inr s)
          = (flags \<noteq> - 1
             \<and> (flags AND MAP_PRIVATE = 0 \<or> flags AND MAP_ANONYMOUS = 0
                 \<or> flags AND MAP_GROWSDOWN \<noteq> 0 \<or> flags AND MAP_STACK \<noteq> 0)))
       \<and> advised (snd (madvise p (page_address (globals s) address)
                    (new_length (globals s) address len) MADV_MERGEABLE s))
          = advised s @ [(page_address (globals s) address,
                          new_length (globals s) address len, MADV_MERGEABLE)]"
proof -
  let ?L = "new_length (globals s) address len"
  let ?s' = "snd (madvise p (page_address (globals s) address) ?L MADV_MERGEABLE s)"
  have ne: "?s' \<noteq> s" by (rule madvise_changes)
  then have ne': "s \<noteq> ?s'" by (rule not_sym)
  have tr: "advised ?s' = advised s @ [(page_address (globals s) address, ?L, MADV_MERGEABLE)]"
    by (rule advised_madvise)
  have big: "\<not> ?L \<le> scast (merge_threshold (globals s))"
    using threshold_test [OF assms(3), of ?L] assms(4) by simp
  note r = merge_if_profitable_big [OF assms(1) assms(2) big, of p flags]
  show ?thesis
  proof (cases "flags = - 1
             \<or> (flags AND MAP_PRIVATE \<noteq> 0 \<and> flags AND MAP_ANONYMOUS \<noteq> 0
                 \<and> flags AND MAP_GROWSDOWN = 0 \<and> flags AND MAP_STACK = 0)")
    case True
    have "merge_if_profitable p address len flags s = Inr ?s'"
      unfolding r by (rule if_P [OF True])
    with True ne tr show ?thesis by auto
  next
    case False
    have "merge_if_profitable p address len flags s = Inr s"
      unfolding r by (rule if_not_P [OF False])
    with False ne' tr show ?thesis by auto
  qed
qed

theorem flags_filter_witness:
  "page_size (globals (ready_process 32768)) \<noteq> 0
   \<and> (0x10000 :: uintptr_t) \<noteq> 0
   \<and> 0 \<le> sint (merge_threshold (globals (ready_process 32768)))
   \<and> sint (merge_threshold (globals (ready_process 32768)))
       < uint (new_length (globals (ready_process 32768)) 0x10000 0x100000)
   \<and> merge_if_profitable (sample_platform None) 0x10000 0x100000
         (MAP_PRIVATE OR MAP_ANONYMOUS) (ready_process 32768)
       = Inr (snd (madvise (sample_platform None) 0x10000 0x100000 MADV_MERGEABLE
                (ready_process 32768)))
   \<and> merge_if_profitable (sample_platform None) 0x10000 0x100000 (- 1) (ready_process 32768)
       = Inr (snd (madvise (sample_platform None) 0x10000 0x100000 MADV_MERGEABLE
                (ready_process 32768)))
   \<and> merge_if_profitable (sample_platform None) 0x10000 0x100000
         (MAP_PRIVATE OR MAP_ANONYMOUS OR MAP_STACK) (ready_process 32768)
       = Inr (ready_process 32768)
   \<and> merge_if_profitable (sample_platform None) 0x10000 0x100000
         (MAP_PRIVATE OR MAP_ANONYMOUS OR MAP_GROWSDOWN) (ready_process 32768)
       = Inr (ready_process 32768)
   \<and> merge_if_profitable (sample_platform None) 0x10000 0x100000
         (MAP_SHARED OR MAP_ANONYMOUS) (ready_process 32768)
       = Inr (ready_process 32768)
   \<and> merge_if_profitable (sample_platform None) 0x10000 0x100000
         MAP_PRIVATE (ready_process 32768)
       = Inr (ready_process 32768)
   \<and> merge_if_profitable (sample_platform None) 0x10000 0x100000
         MAP_SHARED (ready_process 32768)
       = Inr (ready_process 32768)"
proof -
  let ?s = "ready_process 32768"
  have h1: "page_size (globals ?s) \<noteq> 0" by (simp add: ready_process_def)
  have h2: "(0x10000 :: uintptr_t) \<noteq> 0" by simp
  have h3: "0 \<le> sint (merge_threshold (globals ?s))" by (simp add: ready_process_def)
  have pa: "page_address (globals ?s) 0x10000 = 0x10000"
    by (simp add: page_address_def ready_process_def)
  have nl: "new_length (globals ?s) 0x10000 0x100000 = 0x100000"
    by (simp add: new_length_def pa)
  have h4: "sint (merge_threshold (globals ?s)) < uint (new_length (globals ?s) 0x10000 0x100000)"
    by (simp add: nl) (simp add: ready_process_def)
  note f = flags_filter [OF h1 h2 h3 h4, of "sample_platform None"]
  show ?thesis
    using h1 h2 h3 h4
      f [of "MAP_PRIVATE OR MAP_ANONYMOUS"]
      f [of "- 1"]
      f [of "MAP_PRIVATE OR MAP_ANONYMOUS OR MAP_STACK"]
      f [of "MAP_PRIVATE OR MAP_ANONYMOUS OR MAP_GROWSDOWN"]
      f [of "MAP_SHARED OR MAP_ANONYMOUS"]
      f [of MAP_PRIVATE]
      f [of MAP_SHARED]
    by (simp add: pa nl MAP_PRIVATE_def MAP_ANONYMOUS_def MAP_STACK_def MAP_GROWSDOWN_def
        MAP_SHARED_def)
qed

text \<open>
  C4 (page rounding), as the code has it. The claim as stated, for every address and every
  length, fails: the extended length is computed in \<^verbatim>\<open>size_t\<close> and wraps around. With a
  threshold of 0, the address 4196 (100 bytes into the page at 4096) and the length
  \<open>2 ^ 64 - 50\<close>, the advisory issued is for 50 bytes from 4096: not the length plus 100,
  and a region that ends before the address 4196 itself.
\<close>

theorem page_rounding_wraps:
  "merge_if_profitable (sample_platform (Some ''0'')) 4196 (- 50) (- 1) (ready_process 0)
     = Inr ((ready_process 0)\<lparr>advised := [(4096, 50, MADV_MERGEABLE)]\<rparr>)
   \<and> page_address (globals (ready_process 0)) 4196 = 4096
   \<and> unat (new_length (globals (ready_process 0)) 4196 (- 50)) = 50
   \<and> unat (- 50 :: size_t) + unat (4196 :: uintptr_t) mod unat (page_size (globals (ready_process 0)))
       = 18446744073709551666
   \<and> unat (page_address (globals (ready_process 0)) 4196)
       + unat (new_length (globals (ready_process 0)) 4196 (- 50)) \<le> unat (4196 :: uintptr_t)"
proof -
  have pa: "page_address (globals (ready_process 0)) 4196 = 4096"
    by (simp add: page_address_def ready_process_def)
  have nl: "new_length (globals (ready_process 0)) 4196 (- 50) = 50"
    by (simp add: new_length_def pa)
  have ps: "page_size (globals (ready_process 0)) = 4096" by (simp add: ready_process_def)
  have m: "merge_if_profitable (sample_platform (Some ''0'')) 4196 (- 50) (- 1) (ready_process 0)
     = Inr ((ready_process 0)\<lparr>advised := [(4096, 50, MADV_MERGEABLE)]\<rparr>)"
    by (simp add: merge_if_profitable_def Let_def pa nl ps madvise_def)
      (simp add: ready_process_def sample_platform_def)
  show ?thesis using m by (simp add: pa nl ps)
qed

text \<open>
  C4, amended: when the length plus the offset of the address within its page fits in
  \<^verbatim>\<open>size_t\<close> (no wrap-around) and the page size is not 0, page_address is the address
  rounded down to a multiple of the page size, less than a page below the address;
  new_length is the length plus the offset; the region from page_address of length
  new_length starts at or before the address and ends where the requested region ends;
  and merge_if_profitable either issues nothing or issues madvise for exactly that region.
\<close>

theorem page_rounding:
  assumes "page_size (globals s) \<noteq> 0"
    and "unat len + unat address mod unat (page_size (globals s)) < 2 ^ 64"
  shows "unat (page_address (globals s) address)
           = unat address div unat (page_size (globals s)) * unat (page_size (globals s))
       \<and> unat (page_address (globals s) address) \<le> unat address
       \<and> unat address < unat (page_address (globals s) address) + unat (page_size (globals s))
       \<and> unat (new_length (globals s) address len)
           = unat len + unat address mod unat (page_size (globals s))
       \<and> unat (page_address (globals s) address) + unat (new_length (globals s) address len)
           = unat address + unat len
       \<and> (merge_if_profitable p address len flags s = Inr s
          \<or> merge_if_profitable p address len flags s
              = Inr (s\<lparr>world := snd (sys_madvise p (page_address (globals s) address)
                                     (new_length (globals s) address len) MADV_MERGEABLE (world s)),
                      advised := advised s @ [(page_address (globals s) address,
                                   new_length (globals s) address len, MADV_MERGEABLE)]\<rparr>))"
proof -
  let ?ps = "unat (page_size (globals s))"
  have pos: "0 < ?ps" using assms(1) by (simp add: unat_gt_0)
  have a: "unat (page_address (globals s) address) = unat address div ?ps * ?ps"
    by (rule unat_page_address)
  have b: "unat address div ?ps * ?ps + unat address mod ?ps = unat address"
    by simp
  have c: "unat address mod ?ps < ?ps" using pos by simp
  have d: "unat (new_length (globals s) address len) = unat len + unat address mod ?ps"
    using assms(2) by (rule unat_new_length)
  have e: "snd (madvise p (page_address (globals s) address)
                  (new_length (globals s) address len) MADV_MERGEABLE s)
           = s\<lparr>world := snd (sys_madvise p (page_address (globals s) address)
                                     (new_length (globals s) address len) MADV_MERGEABLE (world s)),
                      advised := advised s @ [(page_address (globals s) address,
                                   new_length (globals s) address len, MADV_MERGEABLE)]\<rparr>"
    by (simp add: madvise_def split: prod.splits)
  have f: "merge_if_profitable p address len flags s = Inr s
          \<or> merge_if_profitable p address len flags s
              = Inr (snd (madvise p (page_address (globals s) address)
                  (new_length (globals s) address len) MADV_MERGEABLE s))"
    using assms(1) by (rule merge_if_profitable_returns)
  from a b c d have "unat (page_address (globals s) address) \<le> unat address
       \<and> unat address < unat (page_address (globals s) address) + ?ps
       \<and> unat (page_address (globals s) address) + unat (new_length (globals s) address len)
           = unat address + unat len"
    by linarith
  with a d f show ?thesis unfolding e by blast
qed

theorem page_rounding_witness:
  "page_size (globals (ready_process 4096)) \<noteq> 0
   \<and> unat (5000 :: size_t)
       + unat (0x7F0000A00064 :: uintptr_t) mod unat (page_size (globals (ready_process 4096)))
       < 2 ^ 64
   \<and> unat (0x7F0000A00064 :: uintptr_t) mod unat (page_size (globals (ready_process 4096))) = 100
   \<and> page_address (globals (ready_process 4096)) 0x7F0000A00064 = 0x7F0000A00000
   \<and> unat (page_address (globals (ready_process 4096)) 0x7F0000A00064)
       = unat (0x7F0000A00064 :: uintptr_t) div 4096 * 4096
   \<and> unat (new_length (globals (ready_process 4096)) 0x7F0000A00064 5000) = 5100
   \<and> merge_if_profitable (sample_platform None) 0x7F0000A00064 5000 (- 1) (ready_process 4096)
       = Inr ((ready_process 4096)\<lparr>advised := [(0x7F0000A00000, 5100, MADV_MERGEABLE)]\<rparr>)"
proof -
  let ?s = "ready_process 4096"
  have ps: "page_size (globals ?s) = 4096" by (simp add: ready_process_def)
  have h1: "page_size (globals ?s) \<noteq> 0" by (simp add: ps)
  have h2: "unat (5000 :: size_t)
       + unat (0x7F0000A00064 :: uintptr_t) mod unat (page_size (globals ?s)) < 2 ^ 64"
    by (simp add: ps)
  have pa: "page_address (globals ?s) 0x7F0000A00064 = 0x7F0000A00000"
    by (simp add: page_address_def ps)
  have nl: "new_length (globals ?s) 0x7F0000A00064 5000 = 5100"
    by (simp add: new_length_def pa)
  have m: "merge_if_profitable (sample_platform None) 0x7F0000A00064 5000 (- 1) ?s \<noteq> Inr ?s"
    by (simp add: merge_if_profitable_def Let_def pa nl ps madvise_def)
      (simp add: ready_process_def sample_platform_def)
  have w: "snd (sys_madvise (sample_platform None) 0x7F0000A00000 5100 MADV_MERGEABLE (world ?s))
      = world ?s"
    by (simp add: sample_platform_def)
  have a: "advised ?s = []" by (simp add: ready_process_def)
  show ?thesis
    using h1 h2 m page_rounding [OF h1 h2, of "sample_platform None" "- 1"]
    by (simp add: pa nl ps w a)
qed

section \<open>Facts about setup\<close>

lemma xdlsym_cases:
  "xdlsym p symbol =
     (if dlsym_next p symbol = 0
      then Inl (Exit 1 (program_invocation_name p @ '': failed to load '' @ symbol @ '' : ''
                        @ dlerror p symbol @ [CHR 0x0A]))
      else Inr (dlsym_next p symbol))"
  by (simp add: xdlsym_def error_exit_def Let_def)

text \<open>setup exits at the first symbol that does not resolve, before it has written
  anything; with all five resolved it returns.\<close>

lemma setup_globals_cases:
  "setup_globals p g =
     (case find (\<lambda>symbol. dlsym_next p symbol = 0) hooked_symbols of
        Some missing \<Rightarrow>
          (Inl (Exit 1 (program_invocation_name p @ '': failed to load '' @ missing @ '' : ''
                        @ dlerror p missing @ [CHR 0x0A])), g)
      | None \<Rightarrow>
          (Inr (),
           g\<lparr>page_size := sysconf_PAGESIZE p,
             merge_threshold :=
               (if 0 \<le> sint (get_int_from_environment p MERGE_THRESHOLD_ENV_NAME)
                then get_int_from_environment p MERGE_THRESHOLD_ENV_NAME
                else merge_threshold g),
             ext_calloc := dlsym_next p ''calloc'',
             ext_malloc := dlsym_next p ''malloc'',
             ext_mmap := dlsym_next p ''mmap'',
             ext_mremap := dlsym_next p ''mremap'',
             ext_realloc := dlsym_next p ''realloc''\<rparr>))"
  by (simp add: setup_globals_def xdlsym_cases hooked_symbols_def Let_def)

lemma setup_globals_resolved:
  assumes "\<forall>symbol \<in> set hooked_symbols. dlsym_next p symbol \<noteq> 0"
  shows "setup_globals p g =
          (Inr (),
           g\<lparr>page_size := sysconf_PAGESIZE p,
             merge_threshold :=
               (if 0 \<le> sint (get_int_from_environment p MERGE_THRESHOLD_ENV_NAME)
                then get_int_from_environment p MERGE_THRESHOLD_ENV_NAME
                else merge_threshold g),
             ext_calloc := dlsym_next p ''calloc'',
             ext_malloc := dlsym_next p ''malloc'',
             ext_mmap := dlsym_next p ''mmap'',
             ext_mremap := dlsym_next p ''mremap'',
             ext_realloc := dlsym_next p ''realloc''\<rparr>)"
proof -
  have "find (\<lambda>symbol. dlsym_next p symbol = 0) hooked_symbols = None"
    using assms by (simp add: find_None_iff)
  then show ?thesis by (simp add: setup_globals_cases)
qed

lemma first_missing:
  assumes "symbol \<in> set hooked_symbols" and "dlsym_next p symbol = 0"
  shows "\<exists>missing. find (\<lambda>symbol. dlsym_next p symbol = 0) hooked_symbols = Some missing
           \<and> missing \<in> set hooked_symbols \<and> dlsym_next p missing = 0"
proof -
  have "find (\<lambda>symbol. dlsym_next p symbol = 0) hooked_symbols \<noteq> None"
    using assms by (auto simp: find_None_iff)
  then obtain missing where
    f: "find (\<lambda>symbol. dlsym_next p symbol = 0) hooked_symbols = Some missing"
    by blast
  then have "missing \<in> set hooked_symbols \<and> dlsym_next p missing = 0"
    by (auto simp: find_Some_iff)
  with f show ?thesis by blast
qed

text \<open>The threshold setup leaves is never negative when the one it found was not.\<close>

lemma setup_globals_threshold:
  assumes "setup_globals p g = (r, g')" and "0 \<le> sint (merge_threshold g)"
  shows "0 \<le> sint (merge_threshold g')"
  using assms
  by (auto simp: setup_globals_cases split: option.splits if_splits)

section \<open>Facts about lazily_setup\<close>

lemma lazily_setup_done: "setup_done s \<Longrightarrow> lazily_setup p self s = Inr s"
  by (simp add: lazily_setup_def)

lemma lazily_setup_held: "mutex s = Some self \<Longrightarrow> lazily_setup p self s = Inr s"
  by (simp add: lazily_setup_def pthread_mutex_lock_def)

lemma lazily_setup_first:
  assumes "\<not> setup_done s" and "mutex s = None"
  shows "lazily_setup p self s =
           (case setup_globals p (globals s) of
              (Inl e, g) \<Rightarrow> Inl e
            | (Inr u, g) \<Rightarrow> Inr (s\<lparr>globals := g, setup_done := True\<rparr>))"
  using assms
  by (simp add: lazily_setup_def pthread_mutex_lock_def pthread_mutex_unlock_def EDEADLK_def
      Let_def split: prod.splits sum.splits)

section \<open>The lazy initialiser\<close>

text \<open>
  C5 (recursive reentry): when the calling thread already holds the mutex, as it does
  for every call made from inside setup, lazily_setup returns at once with the state it
  was given: it does not wait, does not run setup (the statement holds on every platform,
  also one where setup would exit), and leaves setup_done and the five pointers as they
  are. A wrapper called in that state goes on with the pointers installed at that moment
  and leaves globals, setup_done and the mutex as they are.
\<close>

theorem recursive_reentry:
  assumes "mutex s = Some self"
  shows "lazily_setup p self s = Inr s
       \<and> (ext_calloc (globals s) \<noteq> 0 \<and> page_size (globals s) \<noteq> 0 \<longrightarrow>
            (\<exists>s'. calloc p self nmemb sz s
                     = Inr (fst (call_calloc p (ext_calloc (globals s)) nmemb sz (world s)), s')
                 \<and> globals s' = globals s \<and> setup_done s' = setup_done s
                 \<and> mutex s' = mutex s))
       \<and> (ext_malloc (globals s) \<noteq> 0 \<and> page_size (globals s) \<noteq> 0 \<longrightarrow>
            (\<exists>s'. malloc p self sz s
                     = Inr (fst (call_malloc p (ext_malloc (globals s)) sz (world s)), s')
                 \<and> globals s' = globals s \<and> setup_done s' = setup_done s
                 \<and> mutex s' = mutex s))"
proof -
  have l: "lazily_setup p self s = Inr s" using assms by (rule lazily_setup_held)
  have c: "\<exists>s'. calloc p self nmemb sz s
                     = Inr (fst (call_calloc p (ext_calloc (globals s)) nmemb sz (world s)), s')
                 \<and> globals s' = globals s \<and> setup_done s' = setup_done s
                 \<and> mutex s' = mutex s"
    if "ext_calloc (globals s) \<noteq> 0" and ps: "page_size (globals s) \<noteq> 0"
  proof -
    obtain res w where r: "call_calloc p (ext_calloc (globals s)) nmemb sz (world s) = (res, w)"
      by (cases "call_calloc p (ext_calloc (globals s)) nmemb sz (world s)")
    have "page_size (globals (s\<lparr>world := w\<rparr>)) \<noteq> 0" using ps by simp
    from merge_if_profitable_returns [OF this, of p res sz "- 1"]
    obtain s' where m: "merge_if_profitable p res sz (- 1) (s\<lparr>world := w\<rparr>) = Inr s'"
      by blast
    from merge_if_profitable_keeps [OF m]
    have k: "globals s' = globals s \<and> setup_done s' = setup_done s \<and> mutex s' = mutex s"
      by simp
    have "calloc p self nmemb sz s = Inr (res, s')"
      using that(1) by (simp add: calloc_def l r m)
    with k r show ?thesis by simp
  qed
  have m: "\<exists>s'. malloc p self sz s
                     = Inr (fst (call_malloc p (ext_malloc (globals s)) sz (world s)), s')
                 \<and> globals s' = globals s \<and> setup_done s' = setup_done s
                 \<and> mutex s' = mutex s"
    if "ext_malloc (globals s) \<noteq> 0" and ps: "page_size (globals s) \<noteq> 0"
  proof -
    obtain res w where r: "call_malloc p (ext_malloc (globals s)) sz (world s) = (res, w)"
      by (cases "call_malloc p (ext_malloc (globals s)) sz (world s)")
    have "page_size (globals (s\<lparr>world := w\<rparr>)) \<noteq> 0" using ps by simp
    from merge_if_profitable_returns [OF this, of p res sz "- 1"]
    obtain s' where m: "merge_if_profitable p res sz (- 1) (s\<lparr>world := w\<rparr>) = Inr s'"
      by blast
    from merge_if_profitable_keeps [OF m]
    have k: "globals s' = globals s \<and> setup_done s' = setup_done s \<and> mutex s' = mutex s"
      by simp
    have "malloc p self sz s = Inr (res, s')"
      using that(1) by (simp add: malloc_def l r m)
    with k r show ?thesis by simp
  qed
  from l c m show ?thesis by blast
qed

text \<open>
  The witness runs on a platform where \<^verbatim>\<open>mremap\<close> does not resolve, so that setup would
  exit: the first call of the initialiser exits, the call made while thread 1 holds the
  mutex returns with nothing changed, and \<^verbatim>\<open>malloc\<close> called there is served by
  \<^verbatim>\<open>__libc_malloc\<close>.
\<close>

theorem recursive_reentry_witness:
  "mutex (process_in_setup (platform_without ''mremap'')) = Some 1
   \<and> lazily_setup (platform_without ''mremap'') 1 (process_in_setup (platform_without ''mremap''))
       = Inr (process_in_setup (platform_without ''mremap''))
   \<and> fst (setup_globals (platform_without ''mremap'')
            (globals (process_in_setup (platform_without ''mremap''))))
       = Inl (Exit 1 ''a.out: failed to load mremap : undefined symbol: mremap\<newline>'')
   \<and> (\<exists>s'. malloc (platform_without ''mremap'') 1 24
              (process_in_setup (platform_without ''mremap''))
            = Inr (0x10064, s')
          \<and> globals s' = globals (process_in_setup (platform_without ''mremap''))
          \<and> setup_done s' = False \<and> mutex s' = Some 1)"
proof -
  let ?p = "platform_without ''mremap''"
  let ?s = "process_in_setup ?p"
  have h: "mutex ?s = Some 1" by (simp add: process_in_setup_def)
  have e: "fst (setup_globals ?p (globals ?s))
       = Inl (Exit 1 ''a.out: failed to load mremap : undefined symbol: mremap\<newline>'')"
    by (simp add: setup_globals_cases hooked_symbols_def platform_without_def
        sample_platform_def)
  have g: "ext_malloc (globals ?s) \<noteq> 0 \<and> page_size (globals ?s) \<noteq> 0"
    by (simp add: process_in_setup_def initial_process_def initial_globals_def
        platform_without_def sample_platform_def)
  have c: "fst (call_malloc ?p (ext_malloc (globals ?s)) 24 (world ?s)) = 0x10064"
    by (simp add: process_in_setup_def initial_process_def initial_globals_def
        platform_without_def sample_platform_def)
  have d: "setup_done ?s = False" by (simp add: process_in_setup_def initial_process_def)
  show ?thesis
    using h e g recursive_reentry [OF h, of ?p 1 24]
    by (simp add: c d)
qed

section \<open>Symbol resolution\<close>

text \<open>
  C6 (fatal symbol-resolution failure): if the lookup of one of the five symbols gives no
  address, setup ends in \<^verbatim>\<open>error (1, 0, ...)\<close>: exit status 1, with the message
  "failed to load", the name of a symbol whose lookup failed (the first in the order
  calloc, malloc, mmap, mremap, realloc; the symbol itself when it is the only one
  missing) and the loader's message. \<^verbatim>\<open>globals\<close> are then as they were before setup: no
  pointer has been written, from whatever \<^verbatim>\<open>globals\<close> setup starts, and setup never
  returns. The first call of the initialiser, and of \<^verbatim>\<open>malloc\<close> with it (every wrapper
  starts with the initialiser), ends in that exit. When all five symbols resolve, setup
  writes the five pointers together (lemma \<open>setup_globals_cases\<close>).
\<close>

theorem symbol_resolution_failure_is_fatal:
  assumes "symbol \<in> set hooked_symbols" and "dlsym_next p symbol = 0"
  shows "\<exists>missing \<in> set hooked_symbols.
           dlsym_next p missing = 0
           \<and> ((\<forall>other \<in> set hooked_symbols. other \<noteq> symbol \<longrightarrow> dlsym_next p other \<noteq> 0)
                \<longrightarrow> missing = symbol)
           \<and> setup_globals p g =
               (Inl (Exit 1 (program_invocation_name p @ '': failed to load '' @ missing
                             @ '' : '' @ dlerror p missing @ [CHR 0x0A])), g)
           \<and> (\<not> setup_done s \<and> mutex s = None \<longrightarrow>
                lazily_setup p self s =
                  Inl (Exit 1 (program_invocation_name p @ '': failed to load '' @ missing
                               @ '' : '' @ dlerror p missing @ [CHR 0x0A]))
                \<and> malloc p self sz s =
                  Inl (Exit 1 (program_invocation_name p @ '': failed to load '' @ missing
                               @ '' : '' @ dlerror p missing @ [CHR 0x0A])))
           \<and> (\<forall>g0 r g'. setup_globals p g0 = (r, g') \<longrightarrow> r \<noteq> Inr () \<and> g' = g0)"
proof -
  from first_missing [OF assms]
  obtain missing where
    f: "find (\<lambda>symbol. dlsym_next p symbol = 0) hooked_symbols = Some missing"
    and m: "missing \<in> set hooked_symbols" "dlsym_next p missing = 0"
    by blast
  have any: "setup_globals p g0 =
               (Inl (Exit 1 (program_invocation_name p @ '': failed to load '' @ missing
                             @ '' : '' @ dlerror p missing @ [CHR 0x0A])), g0)" for g0
    by (simp add: setup_globals_cases f)
  have sole: "missing = symbol"
    if "\<forall>other \<in> set hooked_symbols. other \<noteq> symbol \<longrightarrow> dlsym_next p other \<noteq> 0"
    using that m by blast
  have l: "lazily_setup p self s =
                  Inl (Exit 1 (program_invocation_name p @ '': failed to load '' @ missing
                               @ '' : '' @ dlerror p missing @ [CHR 0x0A]))"
    if "\<not> setup_done s" "mutex s = None"
    by (simp add: lazily_setup_first [OF that] any)
  have w: "malloc p self sz s =
                  Inl (Exit 1 (program_invocation_name p @ '': failed to load '' @ missing
                               @ '' : '' @ dlerror p missing @ [CHR 0x0A]))"
    if "\<not> setup_done s" "mutex s = None"
    by (simp add: malloc_def l [OF that])
  have never: "\<forall>g0 r g'. setup_globals p g0 = (r, g') \<longrightarrow> r \<noteq> Inr () \<and> g' = g0"
    by (auto simp: any)
  show ?thesis
  proof (rule bexI [where x = missing])
    show "missing \<in> set hooked_symbols" by (rule m(1))
    show "dlsym_next p missing = 0
           \<and> ((\<forall>other \<in> set hooked_symbols. other \<noteq> symbol \<longrightarrow> dlsym_next p other \<noteq> 0)
                \<longrightarrow> missing = symbol)
           \<and> setup_globals p g =
               (Inl (Exit 1 (program_invocation_name p @ '': failed to load '' @ missing
                             @ '' : '' @ dlerror p missing @ [CHR 0x0A])), g)
           \<and> (\<not> setup_done s \<and> mutex s = None \<longrightarrow>
                lazily_setup p self s =
                  Inl (Exit 1 (program_invocation_name p @ '': failed to load '' @ missing
                               @ '' : '' @ dlerror p missing @ [CHR 0x0A]))
                \<and> malloc p self sz s =
                  Inl (Exit 1 (program_invocation_name p @ '': failed to load '' @ missing
                               @ '' : '' @ dlerror p missing @ [CHR 0x0A])))
           \<and> (\<forall>g0 r g'. setup_globals p g0 = (r, g') \<longrightarrow> r \<noteq> Inr () \<and> g' = g0)"
    proof (intro conjI impI)
      show "dlsym_next p missing = 0" by (rule m(2))
      show "setup_globals p g =
               (Inl (Exit 1 (program_invocation_name p @ '': failed to load '' @ missing
                             @ '' : '' @ dlerror p missing @ [CHR 0x0A])), g)"
        by (rule any)
      show "\<forall>g0 r g'. setup_globals p g0 = (r, g') \<longrightarrow> r \<noteq> Inr () \<and> g' = g0"
        by (rule never)
    next
      assume "\<forall>other \<in> set hooked_symbols. other \<noteq> symbol \<longrightarrow> dlsym_next p other \<noteq> 0"
      then show "missing = symbol" by (rule sole)
    next
      assume a: "\<not> setup_done s \<and> mutex s = None"
      then show "lazily_setup p self s =
                  Inl (Exit 1 (program_invocation_name p @ '': failed to load '' @ missing
                               @ '' : '' @ dlerror p missing @ [CHR 0x0A]))"
        using l by blast
      from a show "malloc p self sz s =
                  Inl (Exit 1 (program_invocation_name p @ '': failed to load '' @ missing
                               @ '' : '' @ dlerror p missing @ [CHR 0x0A]))"
        using w by blast
    qed
  qed
qed

theorem symbol_resolution_failure_is_fatal_witness:
  "''mmap'' \<in> set hooked_symbols
   \<and> dlsym_next (platform_without ''mmap'') ''mmap'' = 0
   \<and> setup_globals (platform_without ''mmap'') (initial_globals (platform_without ''mmap''))
       = (Inl (Exit 1 ''a.out: failed to load mmap : undefined symbol: mmap\<newline>''),
          initial_globals (platform_without ''mmap''))
   \<and> lazily_setup (platform_without ''mmap'') 1 (initial_process (platform_without ''mmap'') 0)
       = Inl (Exit 1 ''a.out: failed to load mmap : undefined symbol: mmap\<newline>'')
   \<and> malloc (platform_without ''mmap'') 1 24 (initial_process (platform_without ''mmap'') 0)
       = Inl (Exit 1 ''a.out: failed to load mmap : undefined symbol: mmap\<newline>'')"
proof -
  let ?p = "platform_without ''mmap''"
  have h1: "''mmap'' \<in> set hooked_symbols" by (simp add: hooked_symbols_def)
  have h2: "dlsym_next ?p ''mmap'' = 0" by (simp add: platform_without_def)
  have o: "\<forall>other \<in> set hooked_symbols. other \<noteq> ''mmap'' \<longrightarrow> dlsym_next ?p other \<noteq> 0"
    by (simp add: hooked_symbols_def platform_without_def sample_platform_def)
  have i: "\<not> setup_done (initial_process ?p 0) \<and> mutex (initial_process ?p 0) = None"
    by (simp add: initial_process_def)
  have n: "program_invocation_name ?p = ''a.out''"
    "dlerror ?p ''mmap'' = ''undefined symbol: mmap''"
    by (simp_all add: platform_without_def sample_platform_def)
  from symbol_resolution_failure_is_fatal [OF h1 h2,
      of "initial_globals ?p" "initial_process ?p 0" 1 24]
  obtain missing where
    a: "(\<forall>other \<in> set hooked_symbols. other \<noteq> ''mmap'' \<longrightarrow> dlsym_next ?p other \<noteq> 0)
          \<longrightarrow> missing = ''mmap''"
    and b: "setup_globals ?p (initial_globals ?p) =
               (Inl (Exit 1 (program_invocation_name ?p @ '': failed to load '' @ missing
                             @ '' : '' @ dlerror ?p missing @ [CHR 0x0A])), initial_globals ?p)"
    and c: "\<not> setup_done (initial_process ?p 0) \<and> mutex (initial_process ?p 0) = None \<longrightarrow>
                lazily_setup ?p 1 (initial_process ?p 0) =
                  Inl (Exit 1 (program_invocation_name ?p @ '': failed to load '' @ missing
                               @ '' : '' @ dlerror ?p missing @ [CHR 0x0A]))
                \<and> malloc ?p 1 24 (initial_process ?p 0) =
                  Inl (Exit 1 (program_invocation_name ?p @ '': failed to load '' @ missing
                               @ '' : '' @ dlerror ?p missing @ [CHR 0x0A]))"
    by blast
  from a o have "missing = ''mmap''" by blast
  with b c i h1 h2 show ?thesis by (simp add: n)
qed

text \<open>
  The states the examples of the merge policy start from are the ones the initialiser
  leaves on the sample platform: with the variable not set the threshold is the default
  32768, with \<^verbatim>\<open>KSMP_MERGE_THRESHOLD=0\<close> it is 0, with \<^verbatim>\<open>KSMP_MERGE_THRESHOLD=4096\<close> it
  is 4096.
\<close>

lemma ready_process_reached:
  "lazily_setup (sample_platform None) 1 (initial_process (sample_platform None) 0)
     = Inr (ready_process 32768)"
  "lazily_setup (sample_platform (Some ''0'')) 1 (initial_process (sample_platform (Some ''0'')) 0)
     = Inr (ready_process 0)"
  "lazily_setup (sample_platform (Some ''4096'')) 1
     (initial_process (sample_platform (Some ''4096'')) 0)
     = Inr (ready_process 4096)"
  by (simp_all add: lazily_setup_def initial_process_def initial_globals_def sample_platform_def
      ready_process_def pthread_mutex_lock_def pthread_mutex_unlock_def EDEADLK_def
      setup_globals_def xdlsym_def get_int_from_environment_def MERGE_THRESHOLD_ENV_NAME_def
      strtol_def deref_def isspace_def isdigit_def digit_value_def NUL_def INT_MAX_def
      LONG_MAX_def LONG_MIN_def Let_def)

section \<open>The threshold variable\<close>

lemma strtol_no_digits:
  assumes "takeWhile isdigit
             (if deref (dropWhile isspace v) = CHR ''-'' \<or> deref (dropWhile isspace v) = CHR ''+''
              then tl (dropWhile isspace v) else dropWhile isspace v) = []"
  shows "strtol v = (0, v)"
  using assms by (simp add: strtol_def Let_def)

lemma strtol_empty: "strtol [] = (0, [])"
  by (simp add: strtol_def Let_def deref_def NUL_def)

text \<open>
  What the parser does with the values the documentation calls invalid: a variable that
  is not set, a value strtol reads as a negative number, and a value with text left after
  the number (which includes every value that is not empty and in which strtol finds no
  number: the end pointer is then the start of the value) all give -1.
\<close>

lemma get_int_from_environment_unset:
  "getenv p name = None \<Longrightarrow> get_int_from_environment p name = - 1"
  by (simp add: get_int_from_environment_def)

lemma get_int_from_environment_negative:
  "getenv p name = Some v \<Longrightarrow> fst (strtol v) < 0 \<Longrightarrow> get_int_from_environment p name = - 1"
  by (cases "strtol v") (simp add: get_int_from_environment_def)

lemma get_int_from_environment_trailing:
  "getenv p name = Some v \<Longrightarrow> deref (snd (strtol v)) \<noteq> NUL \<Longrightarrow>
   get_int_from_environment p name = - 1"
  by (cases "strtol v") (simp add: get_int_from_environment_def)

lemma get_int_from_environment_no_number:
  assumes "getenv p name = Some v" and "deref v \<noteq> NUL"
    and "takeWhile isdigit
             (if deref (dropWhile isspace v) = CHR ''-'' \<or> deref (dropWhile isspace v) = CHR ''+''
              then tl (dropWhile isspace v) else dropWhile isspace v) = []"
  shows "get_int_from_environment p name = - 1"
  using assms(1,2) by (simp add: get_int_from_environment_def strtol_no_digits [OF assms(3)])

text \<open>With the result -1, setup leaves the threshold as it found it.\<close>

lemma setup_globals_keeps_threshold:
  assumes "get_int_from_environment p MERGE_THRESHOLD_ENV_NAME = - 1"
  shows "merge_threshold (snd (setup_globals p g)) = merge_threshold g"
  using assms by (simp add: setup_globals_cases split: option.splits)

lemma get_int_from_environment_empty:
  "getenv p name = Some [] \<Longrightarrow> get_int_from_environment p name = 0"
  by (simp add: get_int_from_environment_def strtol_empty deref_def INT_MAX_def)

lemma get_int_from_environment_examples:
  "get_int_from_environment (sample_platform None) MERGE_THRESHOLD_ENV_NAME = - 1"
  "get_int_from_environment (sample_platform (Some ''-5'')) MERGE_THRESHOLD_ENV_NAME = - 1"
  "get_int_from_environment (sample_platform (Some ''abc'')) MERGE_THRESHOLD_ENV_NAME = - 1"
  "get_int_from_environment (sample_platform (Some ''12abc'')) MERGE_THRESHOLD_ENV_NAME = - 1"
  "get_int_from_environment (sample_platform (Some '' '')) MERGE_THRESHOLD_ENV_NAME = - 1"
  "get_int_from_environment (sample_platform (Some ''65536'')) MERGE_THRESHOLD_ENV_NAME = 65536"
  "get_int_from_environment (sample_platform (Some ''99999999999999999999''))
     MERGE_THRESHOLD_ENV_NAME = 2147483647"
  "get_int_from_environment (sample_platform (Some [])) MERGE_THRESHOLD_ENV_NAME = 0"
  by (simp_all add: get_int_from_environment_def sample_platform_def MERGE_THRESHOLD_ENV_NAME_def
      strtol_def deref_def isspace_def isdigit_def digit_value_def NUL_def INT_MAX_def
      LONG_MAX_def LONG_MIN_def Let_def)

text \<open>
  C7 (invalid configuration falls back to the default): the code breaks the claim at the
  empty value. The value is not a number, yet the parser answers 0, not -1, and setup
  replaces the default threshold of 32768 with 0. (For the other invalid values the
  claim holds: the lemmas above.)
\<close>

theorem empty_value_replaces_default:
  assumes "getenv p MERGE_THRESHOLD_ENV_NAME = Some []"
    and "\<forall>symbol \<in> set hooked_symbols. dlsym_next p symbol \<noteq> 0"
  shows "get_int_from_environment p MERGE_THRESHOLD_ENV_NAME \<noteq> - 1
       \<and> merge_threshold (initial_globals p) = 32768
       \<and> fst (setup_globals p (initial_globals p)) = Inr ()
       \<and> merge_threshold (snd (setup_globals p (initial_globals p))) = 0"
  using get_int_from_environment_empty [OF assms(1)]
  by (simp add: setup_globals_resolved [OF assms(2)] initial_globals_def)

theorem empty_value_replaces_default_witness:
  "getenv (sample_platform (Some [])) MERGE_THRESHOLD_ENV_NAME = Some []
   \<and> get_int_from_environment (sample_platform (Some [])) MERGE_THRESHOLD_ENV_NAME \<noteq> - 1
   \<and> merge_threshold (initial_globals (sample_platform (Some []))) = 32768
   \<and> merge_threshold (snd (setup_globals (sample_platform (Some []))
                             (initial_globals (sample_platform (Some []))))) = 0"
proof -
  let ?p = "sample_platform (Some [])"
  have h1: "getenv ?p MERGE_THRESHOLD_ENV_NAME = Some []"
    by (simp add: sample_platform_def MERGE_THRESHOLD_ENV_NAME_def)
  have h2: "\<forall>symbol \<in> set hooked_symbols. dlsym_next ?p symbol \<noteq> 0"
    by (simp add: hooked_symbols_def sample_platform_def)
  show ?thesis using h1 empty_value_replaces_default [OF h1 h2] by simp
qed



section \<open>The wrappers\<close>

lemma lazily_setup_initial:
  assumes "\<forall>symbol \<in> set hooked_symbols. dlsym_next p symbol \<noteq> 0"
  shows "\<exists>s1. lazily_setup p self (initial_process p w) = Inr s1
           \<and> world s1 = w
           \<and> page_size (globals s1) = sysconf_PAGESIZE p
           \<and> ext_calloc (globals s1) = dlsym_next p ''calloc''
           \<and> ext_malloc (globals s1) = dlsym_next p ''malloc''
           \<and> ext_mmap (globals s1) = dlsym_next p ''mmap''
           \<and> ext_mremap (globals s1) = dlsym_next p ''mremap''
           \<and> ext_realloc (globals s1) = dlsym_next p ''realloc''"
  by (simp add: lazily_setup_first initial_process_def setup_globals_resolved [OF assms])

lemma calloc_result:
  assumes "calloc p self nmemb sz s = Inr (res, s')"
  shows "\<exists>s1. lazily_setup p self s = Inr s1
           \<and> res = fst (call_calloc p (ext_calloc (globals s1)) nmemb sz (world s1))"
  using assms by (auto simp: calloc_def split: sum.splits if_splits prod.splits)

lemma malloc_result:
  assumes "malloc p self sz s = Inr (res, s')"
  shows "\<exists>s1. lazily_setup p self s = Inr s1
           \<and> res = fst (call_malloc p (ext_malloc (globals s1)) sz (world s1))"
  using assms by (auto simp: malloc_def split: sum.splits if_splits prod.splits)

lemma mmap_result:
  assumes "mmap p self addr len prot flags fd offset s = Inr (res, s')"
  shows "\<exists>s1. lazily_setup p self s = Inr s1
           \<and> res = fst (call_mmap p (ext_mmap (globals s1)) addr len prot flags fd offset
                         (world s1))"
  using assms by (auto simp: mmap_def split: sum.splits if_splits prod.splits)

lemma mremap_result:
  assumes "mremap p self old_address old_length new_len flags extra s = Inr (res, s')"
  shows "\<exists>s1. lazily_setup p self s = Inr s1
           \<and> res = fst (call_mremap p (ext_mremap (globals s1)) old_address old_length new_len
                         flags (if flags AND MREMAP_FIXED \<noteq> 0 then take 1 extra else [])
                         (world s1))"
  using assms
  by (auto simp: mremap_def split: sum.splits if_splits prod.splits list.splits)

lemma realloc_result:
  assumes "realloc p self addr sz s = Inr (res, s')"
  shows "\<exists>s1. lazily_setup p self s = Inr s1
           \<and> res = fst (call_realloc p (ext_realloc (globals s1)) addr sz (world s1))"
  using assms by (auto simp: realloc_def split: sum.splits if_splits prod.splits)

text \<open>After the call of the real primitive, merge_if_profitable returns.\<close>

lemma merge_after_call:
  assumes "page_size (globals s1) \<noteq> 0"
  shows "\<exists>s2. merge_if_profitable p res len flags (s1\<lparr>world := w\<rparr>) = Inr s2"
proof -
  have "page_size (globals (s1\<lparr>world := w\<rparr>)) \<noteq> 0" using assms by simp
  from merge_if_profitable_returns [OF this, of p res len flags] show ?thesis by blast
qed

lemma calloc_returns:
  assumes "lazily_setup p self s = Inr s1" and "ext_calloc (globals s1) \<noteq> 0"
    and "page_size (globals s1) \<noteq> 0"
  shows "\<exists>s'. calloc p self nmemb sz s
           = Inr (fst (call_calloc p (ext_calloc (globals s1)) nmemb sz (world s1)), s')"
proof -
  obtain res w where r: "call_calloc p (ext_calloc (globals s1)) nmemb sz (world s1) = (res, w)"
    by (cases "call_calloc p (ext_calloc (globals s1)) nmemb sz (world s1)")
  from merge_after_call [OF assms(3), of p res sz "- 1" w]
  obtain s2 where "merge_if_profitable p res sz (- 1) (s1\<lparr>world := w\<rparr>) = Inr s2" by blast
  then show ?thesis using assms(1,2) r by (simp add: calloc_def)
qed

lemma malloc_returns:
  assumes "lazily_setup p self s = Inr s1" and "ext_malloc (globals s1) \<noteq> 0"
    and "page_size (globals s1) \<noteq> 0"
  shows "\<exists>s'. malloc p self sz s
           = Inr (fst (call_malloc p (ext_malloc (globals s1)) sz (world s1)), s')"
proof -
  obtain res w where r: "call_malloc p (ext_malloc (globals s1)) sz (world s1) = (res, w)"
    by (cases "call_malloc p (ext_malloc (globals s1)) sz (world s1)")
  from merge_after_call [OF assms(3), of p res sz "- 1" w]
  obtain s2 where "merge_if_profitable p res sz (- 1) (s1\<lparr>world := w\<rparr>) = Inr s2" by blast
  then show ?thesis using assms(1,2) r by (simp add: malloc_def)
qed

lemma mmap_returns:
  assumes "lazily_setup p self s = Inr s1" and "ext_mmap (globals s1) \<noteq> 0"
    and "page_size (globals s1) \<noteq> 0"
  shows "\<exists>s'. mmap p self addr len prot flags fd offset s
           = Inr (fst (call_mmap p (ext_mmap (globals s1)) addr len prot flags fd offset
                         (world s1)), s')"
proof -
  obtain res w where
    r: "call_mmap p (ext_mmap (globals s1)) addr len prot flags fd offset (world s1) = (res, w)"
    by (cases "call_mmap p (ext_mmap (globals s1)) addr len prot flags fd offset (world s1)")
  from merge_after_call [OF assms(3), of p res len flags w]
  obtain s2 where "merge_if_profitable p res len flags (s1\<lparr>world := w\<rparr>) = Inr s2" by blast
  then show ?thesis using assms(1,2) r by (simp add: mmap_def)
qed

lemma realloc_returns:
  assumes "lazily_setup p self s = Inr s1" and "ext_realloc (globals s1) \<noteq> 0"
    and "page_size (globals s1) \<noteq> 0"
  shows "\<exists>s'. realloc p self addr sz s
           = Inr (fst (call_realloc p (ext_realloc (globals s1)) addr sz (world s1)), s')"
proof -
  obtain res w where r: "call_realloc p (ext_realloc (globals s1)) addr sz (world s1) = (res, w)"
    by (cases "call_realloc p (ext_realloc (globals s1)) addr sz (world s1)")
  from merge_after_call [OF assms(3), of p res sz "- 1" w]
  obtain s2 where "merge_if_profitable p res sz (- 1) (s1\<lparr>world := w\<rparr>) = Inr s2" by blast
  then show ?thesis using assms(1,2) r by (simp add: realloc_def)
qed

text \<open>The two forms of the call in \<^verbatim>\<open>mremap\<close>.\<close>

lemma mremap_fixed:
  assumes "lazily_setup p self s = Inr s1" and "ext_mremap (globals s1) \<noteq> 0"
    and "flags AND MREMAP_FIXED \<noteq> 0"
  shows "mremap p self old_address old_length new_len flags (target # rest) s =
           (case merge_if_profitable p
                   (fst (call_mremap p (ext_mremap (globals s1)) old_address old_length new_len
                           flags [target] (world s1)))
                   new_len (- 1)
                   (s1\<lparr>world := snd (call_mremap p (ext_mremap (globals s1)) old_address
                                       old_length new_len flags [target] (world s1))\<rparr>) of
              Inl e \<Rightarrow> Inl e
            | Inr s2 \<Rightarrow>
                Inr (fst (call_mremap p (ext_mremap (globals s1)) old_address old_length new_len
                            flags [target] (world s1)), s2))"
  using assms by (simp add: mremap_def case_prod_beta)

lemma mremap_not_fixed:
  assumes "lazily_setup p self s = Inr s1" and "ext_mremap (globals s1) \<noteq> 0"
    and "flags AND MREMAP_FIXED = 0"
  shows "mremap p self old_address old_length new_len flags extra s =
           (case merge_if_profitable p
                   (fst (call_mremap p (ext_mremap (globals s1)) old_address old_length new_len
                           flags [] (world s1)))
                   new_len (- 1)
                   (s1\<lparr>world := snd (call_mremap p (ext_mremap (globals s1)) old_address
                                       old_length new_len flags [] (world s1))\<rparr>) of
              Inl e \<Rightarrow> Inl e
            | Inr s2 \<Rightarrow>
                Inr (fst (call_mremap p (ext_mremap (globals s1)) old_address old_length new_len
                            flags [] (world s1)), s2))"
  using assms by (simp add: mremap_def case_prod_beta)

lemma mremap_no_va_arg:
  assumes "lazily_setup p self s = Inr s1" and "flags AND MREMAP_FIXED \<noteq> 0"
  shows "mremap p self old_address old_length new_len flags [] s = Inl No_va_arg"
  using assms by (simp add: mremap_def)

lemma mremap_returns:
  assumes "lazily_setup p self s = Inr s1" and "ext_mremap (globals s1) \<noteq> 0"
    and "page_size (globals s1) \<noteq> 0"
    and "flags AND MREMAP_FIXED \<noteq> 0 \<longrightarrow> extra \<noteq> []"
  shows "\<exists>s'. mremap p self old_address old_length new_len flags extra s
           = Inr (fst (call_mremap p (ext_mremap (globals s1)) old_address old_length new_len
                         flags (if flags AND MREMAP_FIXED \<noteq> 0 then take 1 extra else [])
                         (world s1)), s')"
proof (cases "flags AND MREMAP_FIXED = 0")
  case True
  let ?c = "call_mremap p (ext_mremap (globals s1)) old_address old_length new_len flags []
              (world s1)"
  from merge_after_call [OF assms(3), of p "fst ?c" new_len "- 1" "snd ?c"]
  obtain s2 where "merge_if_profitable p (fst ?c) new_len (- 1) (s1\<lparr>world := snd ?c\<rparr>) = Inr s2"
    by blast
  then show ?thesis using True by (simp add: mremap_not_fixed [OF assms(1,2) True])
next
  case False
  with assms(4) obtain target rest where e: "extra = target # rest" by (cases extra) auto
  let ?c = "call_mremap p (ext_mremap (globals s1)) old_address old_length new_len flags
              [target] (world s1)"
  from merge_after_call [OF assms(3), of p "fst ?c" new_len "- 1" "snd ?c"]
  obtain s2 where "merge_if_profitable p (fst ?c) new_len (- 1) (s1\<lparr>world := snd ?c\<rparr>) = Inr s2"
    by blast
  then show ?thesis using False by (simp add: e mremap_fixed [OF assms(1,2) False])
qed

text \<open>
  C1 (transparency): each of the five wrappers returns the value of the real primitive
  it delegates to, called with the caller's arguments in the outside state the caller
  left: whenever the wrapper returns a value, it is that value; and whenever the
  initialiser returns, the pointer is not null and the page size is not 0, the wrapper
  does return (for \<^verbatim>\<open>mremap\<close> with MREMAP_FIXED, when the caller passed the fifth
  argument). A null pointer from the real primitive is returned like any other value.
\<close>

theorem transparency:
  "(calloc p self nmemb sz s = Inr (res, s') \<longrightarrow>
      (\<exists>s1. lazily_setup p self s = Inr s1
         \<and> res = fst (call_calloc p (ext_calloc (globals s1)) nmemb sz (world s1))))
   \<and> (malloc p self sz s = Inr (res, s') \<longrightarrow>
      (\<exists>s1. lazily_setup p self s = Inr s1
         \<and> res = fst (call_malloc p (ext_malloc (globals s1)) sz (world s1))))
   \<and> (mmap p self addr len prot flags fd offset s = Inr (res, s') \<longrightarrow>
      (\<exists>s1. lazily_setup p self s = Inr s1
         \<and> res = fst (call_mmap p (ext_mmap (globals s1)) addr len prot flags fd offset
                       (world s1))))
   \<and> (mremap p self old_address old_length new_len rflags extra s = Inr (res, s') \<longrightarrow>
      (\<exists>s1. lazily_setup p self s = Inr s1
         \<and> res = fst (call_mremap p (ext_mremap (globals s1)) old_address old_length new_len
                       rflags (if rflags AND MREMAP_FIXED \<noteq> 0 then take 1 extra else [])
                       (world s1))))
   \<and> (realloc p self addr sz s = Inr (res, s') \<longrightarrow>
      (\<exists>s1. lazily_setup p self s = Inr s1
         \<and> res = fst (call_realloc p (ext_realloc (globals s1)) addr sz (world s1))))
   \<and> (lazily_setup p self s = Inr s1 \<and> page_size (globals s1) \<noteq> 0 \<longrightarrow>
        (ext_calloc (globals s1) \<noteq> 0 \<longrightarrow>
           (\<exists>s2. calloc p self nmemb sz s
              = Inr (fst (call_calloc p (ext_calloc (globals s1)) nmemb sz (world s1)), s2)))
        \<and> (ext_malloc (globals s1) \<noteq> 0 \<longrightarrow>
           (\<exists>s2. malloc p self sz s
              = Inr (fst (call_malloc p (ext_malloc (globals s1)) sz (world s1)), s2)))
        \<and> (ext_mmap (globals s1) \<noteq> 0 \<longrightarrow>
           (\<exists>s2. mmap p self addr len prot flags fd offset s
              = Inr (fst (call_mmap p (ext_mmap (globals s1)) addr len prot flags fd offset
                            (world s1)), s2)))
        \<and> (ext_mremap (globals s1) \<noteq> 0 \<and> (rflags AND MREMAP_FIXED \<noteq> 0 \<longrightarrow> extra \<noteq> []) \<longrightarrow>
           (\<exists>s2. mremap p self old_address old_length new_len rflags extra s
              = Inr (fst (call_mremap p (ext_mremap (globals s1)) old_address old_length
                            new_len rflags
                            (if rflags AND MREMAP_FIXED \<noteq> 0 then take 1 extra else [])
                            (world s1)), s2)))
        \<and> (ext_realloc (globals s1) \<noteq> 0 \<longrightarrow>
           (\<exists>s2. realloc p self addr sz s
              = Inr (fst (call_realloc p (ext_realloc (globals s1)) addr sz (world s1)), s2))))"
proof (intro conjI impI)
  assume "calloc p self nmemb sz s = Inr (res, s')"
  then show "\<exists>s1. lazily_setup p self s = Inr s1
         \<and> res = fst (call_calloc p (ext_calloc (globals s1)) nmemb sz (world s1))"
    by (rule calloc_result)
next
  assume "malloc p self sz s = Inr (res, s')"
  then show "\<exists>s1. lazily_setup p self s = Inr s1
         \<and> res = fst (call_malloc p (ext_malloc (globals s1)) sz (world s1))"
    by (rule malloc_result)
next
  assume "mmap p self addr len prot flags fd offset s = Inr (res, s')"
  then show "\<exists>s1. lazily_setup p self s = Inr s1
         \<and> res = fst (call_mmap p (ext_mmap (globals s1)) addr len prot flags fd offset
                       (world s1))"
    by (rule mmap_result)
next
  assume "mremap p self old_address old_length new_len rflags extra s = Inr (res, s')"
  then show "\<exists>s1. lazily_setup p self s = Inr s1
         \<and> res = fst (call_mremap p (ext_mremap (globals s1)) old_address old_length new_len
                       rflags (if rflags AND MREMAP_FIXED \<noteq> 0 then take 1 extra else [])
                       (world s1))"
    by (rule mremap_result)
next
  assume "realloc p self addr sz s = Inr (res, s')"
  then show "\<exists>s1. lazily_setup p self s = Inr s1
         \<and> res = fst (call_realloc p (ext_realloc (globals s1)) addr sz (world s1))"
    by (rule realloc_result)
next
  assume a: "lazily_setup p self s = Inr s1 \<and> page_size (globals s1) \<noteq> 0"
    and b: "ext_calloc (globals s1) \<noteq> 0"
  show "\<exists>s2. calloc p self nmemb sz s
              = Inr (fst (call_calloc p (ext_calloc (globals s1)) nmemb sz (world s1)), s2)"
    using a b by (blast intro: calloc_returns)
next
  assume a: "lazily_setup p self s = Inr s1 \<and> page_size (globals s1) \<noteq> 0"
    and b: "ext_malloc (globals s1) \<noteq> 0"
  show "\<exists>s2. malloc p self sz s
              = Inr (fst (call_malloc p (ext_malloc (globals s1)) sz (world s1)), s2)"
    using a b by (blast intro: malloc_returns)
next
  assume a: "lazily_setup p self s = Inr s1 \<and> page_size (globals s1) \<noteq> 0"
    and b: "ext_mmap (globals s1) \<noteq> 0"
  show "\<exists>s2. mmap p self addr len prot flags fd offset s
              = Inr (fst (call_mmap p (ext_mmap (globals s1)) addr len prot flags fd offset
                            (world s1)), s2)"
    using a b by (blast intro: mmap_returns)
next
  assume a: "lazily_setup p self s = Inr s1 \<and> page_size (globals s1) \<noteq> 0"
    and b: "ext_mremap (globals s1) \<noteq> 0 \<and> (rflags AND MREMAP_FIXED \<noteq> 0 \<longrightarrow> extra \<noteq> [])"
  from a have a1: "lazily_setup p self s = Inr s1" and a2: "page_size (globals s1) \<noteq> 0"
    by simp_all
  from b have b1: "ext_mremap (globals s1) \<noteq> 0"
    and b2: "rflags AND MREMAP_FIXED \<noteq> 0 \<longrightarrow> extra \<noteq> []" by simp_all
  show "\<exists>s2. mremap p self old_address old_length new_len rflags extra s
              = Inr (fst (call_mremap p (ext_mremap (globals s1)) old_address old_length
                            new_len rflags
                            (if rflags AND MREMAP_FIXED \<noteq> 0 then take 1 extra else [])
                            (world s1)), s2)"
    by (rule mremap_returns [OF a1 b1 a2 b2])
next
  assume a: "lazily_setup p self s = Inr s1 \<and> page_size (globals s1) \<noteq> 0"
    and b: "ext_realloc (globals s1) \<noteq> 0"
  show "\<exists>s2. realloc p self addr sz s
              = Inr (fst (call_realloc p (ext_realloc (globals s1)) addr sz (world s1)), s2)"
    using a b by (blast intro: realloc_returns)
qed

text \<open>
  On the sample platform, the first call of the process is \<^verbatim>\<open>malloc\<close>: the initialiser
  installs the next library's functions, and the wrapper returns what the next library's
  \<^verbatim>\<open>malloc\<close> returns: the block at 0x10064 for 24 bytes, the null pointer for
  \<open>2 ^ 41\<close> bytes.
\<close>

theorem transparency_witness:
  "lazily_setup (sample_platform None) 1 (initial_process (sample_platform None) 0)
     = Inr (ready_process 32768)
   \<and> page_size (globals (ready_process 32768)) \<noteq> 0
   \<and> ext_malloc (globals (ready_process 32768)) \<noteq> 0
   \<and> fst (call_malloc (sample_platform None) (ext_malloc (globals (ready_process 32768))) 24
            (world (ready_process 32768))) = 0x10064
   \<and> fst (call_malloc (sample_platform None) (ext_malloc (globals (ready_process 32768)))
            0x20000000000 (world (ready_process 32768))) = 0
   \<and> (\<exists>s2. malloc (sample_platform None) 1 24 (initial_process (sample_platform None) 0)
              = Inr (0x10064, s2))
   \<and> (\<exists>s2. malloc (sample_platform None) 1 0x20000000000
              (initial_process (sample_platform None) 0) = Inr (0, s2))
   \<and> malloc (sample_platform None) 1 24 (initial_process (sample_platform None) 0)
       = Inr (0x10064, (ready_process 32768)\<lparr>world := 1\<rparr>)
   \<and> (\<exists>s1. lazily_setup (sample_platform None) 1 (initial_process (sample_platform None) 0)
              = Inr s1
          \<and> 0x10064 = fst (call_malloc (sample_platform None) (ext_malloc (globals s1)) 24
                            (world s1)))"
proof -
  let ?p = "sample_platform None"
  let ?s = "initial_process ?p 0"
  let ?s1 = "ready_process 32768"
  have r: "\<forall>symbol \<in> set hooked_symbols. dlsym_next ?p symbol \<noteq> 0"
    by (simp add: hooked_symbols_def sample_platform_def)
  have e: "get_int_from_environment ?p MERGE_THRESHOLD_ENV_NAME = - 1"
    by (simp add: get_int_from_environment_def sample_platform_def MERGE_THRESHOLD_ENV_NAME_def)
  have l: "lazily_setup ?p 1 ?s = Inr ?s1"
    by (simp add: lazily_setup_first initial_process_def setup_globals_resolved [OF r] e)
      (simp add: ready_process_def initial_globals_def sample_platform_def)
  have g: "page_size (globals ?s1) \<noteq> 0 \<and> ext_malloc (globals ?s1) \<noteq> 0"
    by (simp add: ready_process_def)
  have c1: "fst (call_malloc ?p (ext_malloc (globals ?s1)) 24 (world ?s1)) = 0x10064"
    by (simp add: ready_process_def sample_platform_def)
  have c2: "fst (call_malloc ?p (ext_malloc (globals ?s1)) 0x20000000000 (world ?s1)) = 0"
    by (simp add: ready_process_def sample_platform_def)
  have w: "world ?s1 = 0" by (simp add: ready_process_def)
  have c3: "call_malloc ?p (ext_malloc (globals ?s1)) 24 0 = (0x10064, 1)"
    by (simp add: ready_process_def sample_platform_def)
  have k: "merge_if_profitable ?p 0x10064 24 (- 1) (?s1\<lparr>world := 1\<rparr>)
      = Inr (?s1\<lparr>world := 1\<rparr>)"
    by (rule merge_if_profitable_small)
      (simp_all add: ready_process_def new_length_def page_address_def)
  have m: "malloc ?p 1 24 ?s = Inr (0x10064, ?s1\<lparr>world := 1\<rparr>)"
    using g l w c3 k by (simp add: malloc_def)
  show ?thesis
    using l g m
      transparency [where p = ?p and self = 1 and sz = 24 and s = ?s and ?s1.0 = ?s1
        and res = "0x10064" and s' = "?s1\<lparr>world := 1\<rparr>"]
      transparency [where p = ?p and self = 1 and sz = "0x20000000000" and s = ?s
        and ?s1.0 = ?s1]
      c1 c2
    by simp
qed

text \<open>
  C9 (variadic remap dispatch): once the initialiser has returned and the pointer to the
  real \<^verbatim>\<open>mremap\<close> is not null, the wrapper decides on the MREMAP_FIXED bit of the flags.
  With the bit set it reads the first variadic argument and calls the real \<^verbatim>\<open>mremap\<close>
  with the four fixed arguments and that target address (and with no variadic argument
  to read, the read is undefined); with the bit clear it calls the real \<^verbatim>\<open>mremap\<close> with
  the four fixed arguments alone, and the outcome does not depend on what follows the
  flags in the caller's argument list. In both cases the result of that call is then
  given to merge_if_profitable with the new length and flags -1, and returned.
\<close>

theorem variadic_remap_dispatch:
  assumes "lazily_setup p self s = Inr s1" and "ext_mremap (globals s1) \<noteq> 0"
  shows "(flags AND MREMAP_FIXED \<noteq> 0 \<longrightarrow>
            mremap p self old_address old_length new_len flags (target # rest) s =
              (case merge_if_profitable p
                      (fst (call_mremap p (ext_mremap (globals s1)) old_address old_length
                              new_len flags [target] (world s1)))
                      new_len (- 1)
                      (s1\<lparr>world := snd (call_mremap p (ext_mremap (globals s1)) old_address
                                          old_length new_len flags [target] (world s1))\<rparr>) of
                 Inl e \<Rightarrow> Inl e
               | Inr s2 \<Rightarrow>
                   Inr (fst (call_mremap p (ext_mremap (globals s1)) old_address old_length
                               new_len flags [target] (world s1)), s2))
            \<and> mremap p self old_address old_length new_len flags [] s = Inl No_va_arg)
       \<and> (flags AND MREMAP_FIXED = 0 \<longrightarrow>
            mremap p self old_address old_length new_len flags extra s =
              (case merge_if_profitable p
                      (fst (call_mremap p (ext_mremap (globals s1)) old_address old_length
                              new_len flags [] (world s1)))
                      new_len (- 1)
                      (s1\<lparr>world := snd (call_mremap p (ext_mremap (globals s1)) old_address
                                          old_length new_len flags [] (world s1))\<rparr>) of
                 Inl e \<Rightarrow> Inl e
               | Inr s2 \<Rightarrow>
                   Inr (fst (call_mremap p (ext_mremap (globals s1)) old_address old_length
                               new_len flags [] (world s1)), s2))
            \<and> mremap p self old_address old_length new_len flags extra s
                = mremap p self old_address old_length new_len flags [] s)"
proof (intro conjI impI)
  assume f: "flags AND MREMAP_FIXED \<noteq> 0"
  show "mremap p self old_address old_length new_len flags (target # rest) s =
              (case merge_if_profitable p
                      (fst (call_mremap p (ext_mremap (globals s1)) old_address old_length
                              new_len flags [target] (world s1)))
                      new_len (- 1)
                      (s1\<lparr>world := snd (call_mremap p (ext_mremap (globals s1)) old_address
                                          old_length new_len flags [target] (world s1))\<rparr>) of
                 Inl e \<Rightarrow> Inl e
               | Inr s2 \<Rightarrow>
                   Inr (fst (call_mremap p (ext_mremap (globals s1)) old_address old_length
                               new_len flags [target] (world s1)), s2))"
    by (rule mremap_fixed [OF assms f])
  show "mremap p self old_address old_length new_len flags [] s = Inl No_va_arg"
    by (rule mremap_no_va_arg [OF assms(1) f])
next
  assume f: "flags AND MREMAP_FIXED = 0"
  show "mremap p self old_address old_length new_len flags extra s =
              (case merge_if_profitable p
                      (fst (call_mremap p (ext_mremap (globals s1)) old_address old_length
                              new_len flags [] (world s1)))
                      new_len (- 1)
                      (s1\<lparr>world := snd (call_mremap p (ext_mremap (globals s1)) old_address
                                          old_length new_len flags [] (world s1))\<rparr>) of
                 Inl e \<Rightarrow> Inl e
               | Inr s2 \<Rightarrow>
                   Inr (fst (call_mremap p (ext_mremap (globals s1)) old_address old_length
                               new_len flags [] (world s1)), s2))"
    by (rule mremap_not_fixed [OF assms f])
  show "mremap p self old_address old_length new_len flags extra s
                = mremap p self old_address old_length new_len flags [] s"
    by (simp add: mremap_not_fixed [OF assms f])
qed

text \<open>
  The sample platform's \<^verbatim>\<open>mremap\<close> returns the target address it is called with, or the
  old address when it is called with none: with MREMAP_FIXED the wrapper returns the
  target the caller passed, without it the old address, whatever follows the flags.
\<close>

theorem variadic_remap_dispatch_witness:
  "lazily_setup (sample_platform None) 1 (ready_process 32768) = Inr (ready_process 32768)
   \<and> ext_mremap (globals (ready_process 32768)) \<noteq> 0
   \<and> (MREMAP_MAYMOVE OR MREMAP_FIXED) AND MREMAP_FIXED \<noteq> 0
   \<and> MREMAP_MAYMOVE AND MREMAP_FIXED = 0
   \<and> mremap (sample_platform None) 1 0x20000 4096 8192 (MREMAP_MAYMOVE OR MREMAP_FIXED)
        [0x7F0000B00000, 0xDEAD] (ready_process 32768)
       = Inr (0x7F0000B00000, (ready_process 32768)\<lparr>world := 1\<rparr>)
   \<and> mremap (sample_platform None) 1 0x20000 4096 8192 (MREMAP_MAYMOVE OR MREMAP_FIXED)
        [] (ready_process 32768)
       = Inl No_va_arg
   \<and> mremap (sample_platform None) 1 0x20000 4096 8192 MREMAP_MAYMOVE
        [0x7F0000B00000, 0xDEAD] (ready_process 32768)
       = Inr (0x20000, (ready_process 32768)\<lparr>world := 1\<rparr>)"
proof -
  let ?p = "sample_platform None"
  let ?s = "ready_process 32768"
  have l: "lazily_setup ?p 1 ?s = Inr ?s"
    by (rule lazily_setup_done) (simp add: ready_process_def)
  have e: "ext_mremap (globals ?s) \<noteq> 0" by (simp add: ready_process_def)
  have f1: "(MREMAP_MAYMOVE OR MREMAP_FIXED) AND MREMAP_FIXED \<noteq> 0"
    by (simp add: MREMAP_MAYMOVE_def MREMAP_FIXED_def)
  have f2: "MREMAP_MAYMOVE AND MREMAP_FIXED = 0"
    by (simp add: MREMAP_MAYMOVE_def MREMAP_FIXED_def)
  have c1: "call_mremap ?p (ext_mremap (globals ?s)) 0x20000 4096 8192
              (MREMAP_MAYMOVE OR MREMAP_FIXED) [0x7F0000B00000] (world ?s)
            = (0x7F0000B00000, 1)"
    by (simp add: sample_platform_def ready_process_def)
  have c2: "call_mremap ?p (ext_mremap (globals ?s)) 0x20000 4096 8192
              MREMAP_MAYMOVE [] (world ?s) = (0x20000, 1)"
    by (simp add: sample_platform_def ready_process_def)
  have k1: "merge_if_profitable ?p 0x7F0000B00000 8192 (- 1) (?s\<lparr>world := 1\<rparr>)
      = Inr (?s\<lparr>world := 1\<rparr>)"
    by (rule merge_if_profitable_small)
      (simp_all add: ready_process_def new_length_def page_address_def)
  have k2: "merge_if_profitable ?p 0x20000 8192 (- 1) (?s\<lparr>world := 1\<rparr>)
      = Inr (?s\<lparr>world := 1\<rparr>)"
    by (rule merge_if_profitable_small)
      (simp_all add: ready_process_def new_length_def page_address_def)
  show ?thesis
    using l e f1 f2
      variadic_remap_dispatch [OF l e, where flags = "MREMAP_MAYMOVE OR MREMAP_FIXED"
        and old_address = "0x20000" and old_length = 4096 and new_len = 8192
        and target = "0x7F0000B00000" and rest = "[0xDEAD]"]
      variadic_remap_dispatch [OF l e, where flags = MREMAP_MAYMOVE
        and old_address = "0x20000" and old_length = 4096 and new_len = 8192
        and extra = "[0x7F0000B00000, 0xDEAD]"]
      c1 c2 k1 k2
    by simp
qed

end
